theory Spec2Isabelle
  imports Complex_Main "HOL-Library.AList" "HOL-Library.Sublist" "HOL-Library.Word"
begin

section \<open>Values exchanged with the adapter\<close>

text \<open>
  Templates and configurations reach the adapter as parsed JSON: Python \<open>None\<close>, booleans,
  integers, floats, strings, lists and dictionaries with string keys. A dictionary is an
  association list in insertion order; the dictionaries Python builds have pairwise distinct
  keys (\<open>wf_json\<close> below). Floats are only moved around by the adapter, never computed
  with, and are represented by the real number they denote.
\<close>

datatype json =
    JNull
  | JBool bool
  | JInt int
  | JFloat real
  | JStr string
  | JList "json list"
  | JDict "(string \<times> json) list"

type_synonym bytes = "8 word list"

text \<open>
  Exceptions the adapter's own statements can raise, and \<open>Raised m\<close> for an exception that
  comes out of a collaborator (\<open>m\<close> identifies it). A computation that may raise returns
  \<open>py_exception + 'a\<close>, \<open>Inl\<close> being the raise.
\<close>

datatype py_exception =
    TypeError | AttributeError | KeyError string | ValueError string | Cv2Error | Raised string

definition bind_r :: "'e + 'a \<Rightarrow> ('a \<Rightarrow> 'e + 'b) \<Rightarrow> 'e + 'b" where
  "bind_r m f = (case m of Inl e \<Rightarrow> Inl e | Inr x \<Rightarrow> f x)"

subsection \<open>Python's operators on these values\<close>

text \<open>Truth value of an object, as \<open>if config_data:\<close> tests it.\<close>

fun truthy :: "json \<Rightarrow> bool" where
  "truthy JNull = False"
| "truthy (JBool b) = b"
| "truthy (JInt i) = (i \<noteq> 0)"
| "truthy (JFloat r) = (r \<noteq> 0)"
| "truthy (JStr s) = (s \<noteq> [])"
| "truthy (JList xs) = (xs \<noteq> [])"
| "truthy (JDict d) = (d \<noteq> [])"

text \<open>\<open>needle in hay\<close> on two strings: \<open>needle\<close> occurs in \<open>hay\<close> as a contiguous block.\<close>

fun str_contains :: "string \<Rightarrow> string \<Rightarrow> bool" where
  "str_contains needle [] = (needle = [])"
| "str_contains needle (c # cs) = (needle = take (length needle) (c # cs) \<or> str_contains needle cs)"

text \<open>
  \<open>key in obj\<close> for a string \<open>key\<close>: membership among a dictionary's keys, among a list's
  elements, substring test on a string; any other object is not iterable and the test
  raises \<open>TypeError\<close>.
\<close>

fun py_in :: "string \<Rightarrow> json \<Rightarrow> py_exception + bool" where
  "py_in key (JDict d) = Inr (key \<in> set (map fst d))"
| "py_in key (JList xs) = Inr (JStr key \<in> set xs)"
| "py_in key (JStr s) = Inr (str_contains key s)"
| "py_in key other = Inl TypeError"

text \<open>
  \<open>obj[key]\<close> for a string \<open>key\<close>: a dictionary yields the value or raises \<open>KeyError\<close>;
  lists and strings want integer indices and the other objects are not subscriptable.
\<close>

fun py_getitem :: "json \<Rightarrow> string \<Rightarrow> py_exception + json" where
  "py_getitem (JDict d) key = (case map_of d key of None \<Rightarrow> Inl (KeyError key) | Some v \<Rightarrow> Inr v)"
| "py_getitem other key = Inl TypeError"

text \<open>
  \<open>obj[key] = v\<close> for a string \<open>key\<close>, returning the object after the assignment: a
  dictionary replaces the value in place or appends the new key; every other object
  raises \<open>TypeError\<close>.
\<close>

fun py_setitem :: "json \<Rightarrow> string \<Rightarrow> json \<Rightarrow> py_exception + json" where
  "py_setitem (JDict d) key v = Inr (JDict (AList.update key v d))"
| "py_setitem other key v = Inl TypeError"

text \<open>\<open>obj[a][b] = v\<close>: the object found under \<open>a\<close> is assigned into, in place.\<close>

definition py_setitem2 :: "json \<Rightarrow> string \<Rightarrow> string \<Rightarrow> json \<Rightarrow> py_exception + json" where
  "py_setitem2 obj a b v =
     bind_r (py_getitem obj a) (\<lambda>sub.
     bind_r (py_setitem sub b v) (\<lambda>sub'.
     py_setitem obj a sub'))"

text \<open>\<open>if key not in obj: obj[key] = {}\<close>.\<close>

definition ensure_dict_key :: "json \<Rightarrow> string \<Rightarrow> py_exception + json" where
  "ensure_dict_key obj key =
     bind_r (py_in key obj) (\<lambda>present.
     if present then Inr obj else py_setitem obj key (JDict []))"

text \<open>Reading along a path of keys, through dictionaries only.\<close>

fun lookup_path :: "json \<Rightarrow> string list \<Rightarrow> json option" where
  "lookup_path v [] = Some v"
| "lookup_path (JDict d) (k # ks) = (case map_of d k of None \<Rightarrow> None | Some v \<Rightarrow> lookup_path v ks)"
| "lookup_path other (k # ks) = None"

fun keys_of :: "json \<Rightarrow> string list" where
  "keys_of (JDict d) = map fst d"
| "keys_of other = []"

fun is_dict :: "json \<Rightarrow> bool" where
  "is_dict (JDict d) = True"
| "is_dict other = False"

fun is_list :: "json \<Rightarrow> bool" where
  "is_list (JList xs) = True"
| "is_list other = False"


section \<open>Configuration resolution\<close>

subsection \<open>The \<open>always_merger\<close> of the deepmerge library\<close>

text \<open>
  \<open>always_merger = Merger([(list, "append"), (dict, "merge"), (set, "union")],
  ["override"], ["override"])\<close>. Two lists give \<open>base + nxt\<close>; two dictionaries are merged
  key by key, in the order of \<open>nxt\<close>, into \<open>base\<close> (\<open>base[k] = v\<close> for a new key,
  \<open>base[k] = merge(base[k], v)\<close> otherwise); in every other case, a type conflict included,
  \<open>nxt\<close> is the result. JSON has no sets. The dictionary strategy works in place and
  returns \<open>base\<close>: callers below account for that.
\<close>

fun always_merger_merge :: "json \<Rightarrow> json \<Rightarrow> json"
and dict_strategy_merge ::
  "(string \<times> json) list \<Rightarrow> (string \<times> json) list \<Rightarrow> (string \<times> json) list" where
  "always_merger_merge (JList b) (JList n) = JList (b @ n)"
| "always_merger_merge (JDict b) (JDict n) = JDict (dict_strategy_merge b n)"
| "always_merger_merge b n = n"
| "dict_strategy_merge b [] = b"
| "dict_strategy_merge b ((k, v) # n) =
     dict_strategy_merge
       (AList.update k (case map_of b k of None \<Rightarrow> v | Some bv \<Rightarrow> always_merger_merge bv v) b) n"

subsection \<open>\<open>get_default_config\<close> (api/utils.py)\<close>

definition get_default_config :: json where
  "get_default_config = JDict
     [(''dimensions'', JDict
         [(''display_width'', JInt 1240),
          (''display_height'', JInt 1754),
          (''processing_height'', JInt 1754),
          (''processing_width'', JInt 1240)]),
      (''threshold_params'', JDict [(''MIN_JUMP'', JInt 10)]),
      (''outputs'', JDict
         [(''filter_out_multimarked_files'', JBool False),
          (''show_image_level'', JInt 0)])]"

subsection \<open>\<open>_prepare_config\<close> (src/api_adapter.py)\<close>

text \<open>
  \<open>DotMap(config, _dynamic=False)\<close> rebuilds the dictionary as a \<open>DotMap\<close>, which is a
  dictionary with the same keys whose dictionary values are \<open>DotMap\<close>s in turn; as a
  value it is the same object tree.
\<close>

definition DotMap :: "json \<Rightarrow> json" where
  "DotMap config = config"

text \<open>Lines 206 to 209, the body of \<open>if disable_display:\<close>.\<close>

definition suppress_display :: "json \<Rightarrow> py_exception + json" where
  "suppress_display config =
     bind_r (ensure_dict_key config ''outputs'') (\<lambda>config.
     bind_r (py_setitem2 config ''outputs'' ''show_image_level'' (JInt 0)) (\<lambda>config.
     py_setitem2 config ''outputs'' ''save_image_level'' (JInt 0)))"

text \<open>Lines 212 to 214.\<close>

definition set_auto_align :: "json \<Rightarrow> bool \<Rightarrow> py_exception + json" where
  "set_auto_align config auto_align =
     bind_r (ensure_dict_key config ''alignment_params'') (\<lambda>config.
     py_setitem2 config ''alignment_params'' ''auto_align'' (JBool auto_align))"

text \<open>
  Lines 197 to 218: the request's configuration, before it meets \<open>CONFIG_DEFAULTS\<close>.
  \<open>config_data\<close> is \<open>JNull\<close> for Python's \<open>None\<close>.
\<close>

definition request_config :: "json \<Rightarrow> bool \<Rightarrow> bool \<Rightarrow> py_exception + json" where
  "request_config config_data auto_align disable_display =
     (let config = get_default_config;
          config = (if truthy config_data then always_merger_merge config config_data else config)
      in bind_r (if disable_display then suppress_display config else Inr config) (\<lambda>config.
         bind_r (set_auto_align config auto_align) (\<lambda>config.
         Inr (DotMap config))))"

text \<open>
  The first merge stores the caller's own \<open>alignment_params\<close> object in \<open>config\<close> (the key is
  not among the API defaults), so the assignment of \<open>auto_align\<close> on line 214 writes into
  the caller's \<open>config_data\<close>. This is \<open>config_data\<close> after a call that returned.
\<close>

definition config_data_after :: "json \<Rightarrow> bool \<Rightarrow> json" where
  "config_data_after config_data auto_align =
     (if truthy config_data
      then (case py_setitem2 config_data ''alignment_params'' ''auto_align'' (JBool auto_align) of
              Inl e \<Rightarrow> config_data
            | Inr config_data' \<Rightarrow> config_data')
      else config_data)"

text \<open>
  The whole function. The module-level \<open>CONFIG_DEFAULTS\<close> is the base of the last merge
  (line 221), which works in place and returns its base: the snapshot returned is the
  \<open>CONFIG_DEFAULTS\<close> object itself, with its new contents. The model takes the contents of
  \<open>CONFIG_DEFAULTS\<close> at the call and returns the snapshot, which is also the contents of
  \<open>CONFIG_DEFAULTS\<close> after the call, and the caller's \<open>config_data\<close> after the call. A
  call that raises has changed neither.
\<close>

definition prepare_config ::
  "json \<Rightarrow> json \<Rightarrow> bool \<Rightarrow> bool \<Rightarrow> py_exception + (json \<times> json)" where
  "prepare_config CONFIG_DEFAULTS config_data auto_align disable_display =
     bind_r (request_config config_data auto_align disable_display) (\<lambda>config_obj.
     Inr (always_merger_merge CONFIG_DEFAULTS config_obj,
          config_data_after config_data auto_align))"

subsection \<open>What the claims about configuration speak of\<close>

text \<open>
  Modelled from the spec: the module \<open>src/defaults.py\<close>, which defines \<open>CONFIG_DEFAULTS\<close>,
  is not among the sources. The spec (section 3) describes the snapshot as display and
  processing dimensions, thresholding parameters, output toggles and the alignment toggle;
  this sample has one entry for each, under the keys the adapter itself reads and writes.
  The functions above take the contents of \<open>CONFIG_DEFAULTS\<close> as an argument; the sample is
  the state in which the concrete calls below start.
\<close>

definition CONFIG_DEFAULTS_model :: json where
  "CONFIG_DEFAULTS_model = JDict
     [(''dimensions'', JDict
         [(''display_height'', JInt 2480),
          (''display_width'', JInt 1640),
          (''processing_height'', JInt 820),
          (''processing_width'', JInt 666)]),
      (''threshold_params'', JDict [(''MIN_GAP'', JInt 30), (''MIN_JUMP'', JInt 25)]),
      (''alignment_params'', JDict [(''auto_align'', JBool False), (''max_steps'', JInt 20)]),
      (''outputs'', JDict
         [(''show_image_level'', JInt 0),
          (''save_image_level'', JInt 0),
          (''filter_out_multimarked_files'', JBool False)])]"





text \<open>
  The contents of \<open>CONFIG_DEFAULTS\<close> after the service has resolved the configuration of
  the given requests (\<open>config_data\<close>, \<open>auto_align\<close>) one after the other; a call that raises
  leaves them as they were.
\<close>

fun serve_requests :: "json \<Rightarrow> (json \<times> bool) list \<Rightarrow> json" where
  "serve_requests CONFIG_DEFAULTS [] = CONFIG_DEFAULTS"
| "serve_requests CONFIG_DEFAULTS ((config_data, auto_align) # rest) =
     (case prepare_config CONFIG_DEFAULTS config_data auto_align True of
        Inl e \<Rightarrow> serve_requests CONFIG_DEFAULTS rest
      | Inr (snapshot, config_data') \<Rightarrow> serve_requests snapshot rest)"

text \<open>The snapshot a call returned, if it returned.\<close>

definition returned_snapshot :: "py_exception + (json \<times> json) \<Rightarrow> json option" where
  "returned_snapshot r = (case r of Inl e \<Rightarrow> None | Inr (snapshot, config_data') \<Rightarrow> Some snapshot)"

text \<open>What a call left at a path of the snapshot it returned.\<close>

definition resolved_at :: "py_exception + (json \<times> json) \<Rightarrow> string list \<Rightarrow> json option" where
  "resolved_at r p = (case returned_snapshot r of None \<Rightarrow> None | Some snapshot \<Rightarrow> lookup_path snapshot p)"

section \<open>Template validation (api/utils.py, api/routes.py)\<close>

text \<open>
  A message is a literal text or \<open>str(e)\<close> of a caught exception \<open>e\<close>, which is kept as
  such: its wording is the interpreter's and the collaborators'.
\<close>

datatype message = Text string | StrOf py_exception

definition quoted :: "string \<Rightarrow> string" where
  "quoted s = [CHR 0x27] @ s @ [CHR 0x27]"

text \<open>
  What a call of \<open>validate_template_json\<close> hands back: the details dictionary, a boolean,
  or \<open>None\<close> when control leaves the function without a \<open>return\<close>.
\<close>

datatype validation_outcome =
    ReturnsNone
  | ReturnsBool bool
  | ReturnsDetails bool "message list" "message list"

text \<open>\<open>obj.items()\<close>: only a dictionary has the method.\<close>

fun py_items :: "json \<Rightarrow> py_exception + (string \<times> json) list" where
  "py_items (JDict d) = Inr d"
| "py_items other = Inl AttributeError"

text \<open>
  The body of the loop over the field blocks (lines 109 to 119), for one block, extending
  \<open>errors\<close> and \<open>warnings\<close>. \<open>and\<close> evaluates its right operand only when the left one
  is true.
\<close>

definition check_block ::
  "string \<Rightarrow> json \<Rightarrow> message list \<times> message list \<Rightarrow> py_exception + (message list \<times> message list)" where
  "check_block block_name block_config acc =
     (case acc of (errors, warnings) \<Rightarrow>
      bind_r (py_in ''fieldType'' block_config) (\<lambda>has_field_type.
      bind_r (bind_r (py_in ''bubbleValues'' block_config) (\<lambda>b.
                if b then py_in ''direction'' block_config else Inr False)) (\<lambda>has_custom_values.
      let errors = (if \<not> has_field_type \<and> \<not> has_custom_values
                    then errors @ [Text (''Block '' @ quoted block_name @ '' missing '' @ quoted ''fieldType''
                                         @ '' or '' @ quoted ''bubbleValues'' @ ''+'' @ quoted ''direction'')]
                    else errors)
      in bind_r (py_in ''origin'' block_config) (\<lambda>has_origin.
         let errors = (if \<not> has_origin
                       then errors @ [Text (''Block '' @ quoted block_name @ '' missing '' @ quoted ''origin'')]
                       else errors)
         in bind_r (py_in ''fieldLabels'' block_config) (\<lambda>has_labels.
            let warnings = (if \<not> has_labels
                            then warnings @ [Text (''Block '' @ quoted block_name @ '' missing ''
                                                   @ quoted ''fieldLabels'')]
                            else warnings)
            in Inr (errors, warnings))))))"

fun check_blocks ::
  "(string \<times> json) list \<Rightarrow> message list \<times> message list \<Rightarrow> py_exception + (message list \<times> message list)" where
  "check_blocks [] acc = Inr acc"
| "check_blocks ((block_name, block_config) # blocks) acc =
     bind_r (check_block block_name block_config acc) (check_blocks blocks)"

text \<open>
  Lines 93 to 104, the start of the handler \<open>except Exception as e\<close> of the core
  validator's failure: \<open>errors\<close> after the three top-level checks. \<open>or\<close> evaluates its
  right operand only when the left one is false.
\<close>

definition top_level_errors :: "py_exception \<Rightarrow> json \<Rightarrow> py_exception + message list" where
  "top_level_errors e template_data =
     (let errors = [StrOf e]
      in bind_r (py_in ''pageDimensions'' template_data) (\<lambda>has_page.
         let errors = (if \<not> has_page then errors @ [Text (''Missing '' @ quoted ''pageDimensions'')] else errors)
         in bind_r (py_in ''bubbleDimensions'' template_data) (\<lambda>has_bubble.
            let errors = (if \<not> has_bubble then errors @ [Text (''Missing '' @ quoted ''bubbleDimensions'')]
                          else errors)
            in bind_r (bind_r (py_in ''fieldBlocks'' template_data) (\<lambda>b.
                         if \<not> b then Inr True
                         else bind_r (py_getitem template_data ''fieldBlocks'') (\<lambda>fb. Inr (\<not> truthy fb))))
                 (\<lambda>no_blocks.
               Inr (if no_blocks
                    then errors @ [Text (''Missing or empty '' @ quoted ''fieldBlocks'')]
                    else errors)))))"

text \<open>Lines 107 to 119: the loop over the field blocks, when there are any.\<close>

definition field_block_checks ::
  "json \<Rightarrow> message list \<Rightarrow> py_exception + (message list \<times> message list)" where
  "field_block_checks template_data errors =
     bind_r (py_in ''fieldBlocks'' template_data) (\<lambda>has_blocks.
     if has_blocks
     then bind_r (py_getitem template_data ''fieldBlocks'') (\<lambda>fb.
          bind_r (py_items fb) (\<lambda>blocks. check_blocks blocks (errors, [])))
     else Inr (errors, []))"

text \<open>
  Lines 93 to 128, the whole handler. The additional checks and both \<open>return\<close> statements
  stand inside it.
\<close>

definition validation_handler :: "py_exception \<Rightarrow> json \<Rightarrow> bool \<Rightarrow> py_exception + validation_outcome" where
  "validation_handler e template_data return_details =
     bind_r (top_level_errors e template_data) (\<lambda>errors.
     bind_r (field_block_checks template_data errors) (\<lambda>(errors, warnings).
     if return_details
     then Inr (ReturnsDetails (length errors = 0) errors warnings)
     else Inr (ReturnsBool (length errors = 0))))"

text \<open>
  \<open>validate_template_json\<close> (lines 71 to 137). \<open>core_validate\<close> is the repository's
  \<open>src.utils.validations.validate_template_json\<close>, which is not among the sources and is a
  parameter. When it returns, the \<open>try\<close> block ends after \<open>is_valid = True\<close>, no handler runs
  and the function ends without a \<open>return\<close>. When it raises, the first handler runs; an
  exception raised inside that handler is not caught by the second \<open>except\<close> clause of the
  same \<open>try\<close> and leaves the function, so the second handler (lines 130 to 137) never runs.
\<close>

definition validate_template_json ::
  "(json \<Rightarrow> py_exception + unit) \<Rightarrow> json \<Rightarrow> bool \<Rightarrow> py_exception + validation_outcome" where
  "validate_template_json core_validate template_data return_details =
     (case core_validate template_data of
        Inr u \<Rightarrow> Inr ReturnsNone
      | Inl e \<Rightarrow> validation_handler e template_data return_details)"

text \<open>
  The endpoint \<open>validate_template\<close> (routes.py lines 257 to 284), from the parsed template
  on: \<open>validation_result['valid']\<close> raises \<open>TypeError\<close> on \<open>None\<close>, and every exception
  ends in the status 500 answer.
\<close>

datatype validation_response =
    Validation200 bool "message list" "message list"
  | Error500 message

definition validate_template :: "(json \<Rightarrow> py_exception + unit) \<Rightarrow> json \<Rightarrow> validation_response" where
  "validate_template core_validate template_data =
     (case validate_template_json core_validate template_data True of
        Inl e \<Rightarrow> Error500 (StrOf e)
      | Inr ReturnsNone \<Rightarrow> Error500 (StrOf TypeError)
      | Inr (ReturnsBool b) \<Rightarrow> Error500 (StrOf TypeError)
      | Inr (ReturnsDetails valid errors warnings) \<Rightarrow> Validation200 valid errors warnings)"

text \<open>The outcome is a details dictionary with \<open>valid = true\<close>.\<close>

fun reports_valid :: "py_exception + validation_outcome \<Rightarrow> bool" where
  "reports_valid (Inr (ReturnsDetails valid errors warnings)) = valid"
| "reports_valid other = False"

text \<open>
  A template whose only defect is that its field block \<open>q1\<close> has no \<open>fieldLabels\<close>, and the
  same template with the labels.
\<close>

definition template_without_labels :: json where
  "template_without_labels = JDict
     [(''pageDimensions'', JList [JInt 1240, JInt 1754]),
      (''bubbleDimensions'', JList [JInt 18, JInt 18]),
      (''preProcessors'', JList []),
      (''fieldBlocks'', JDict
         [(''q1'', JDict
            [(''fieldType'', JStr ''QTYPE_MCQ4''),
             (''origin'', JList [JInt 100, JInt 100])])])]"

definition template_complete :: json where
  "template_complete = JDict
     [(''pageDimensions'', JList [JInt 1240, JInt 1754]),
      (''bubbleDimensions'', JList [JInt 18, JInt 18]),
      (''preProcessors'', JList []),
      (''fieldBlocks'', JDict
         [(''q1'', JDict
            [(''fieldType'', JStr ''QTYPE_MCQ4''),
             (''origin'', JList [JInt 100, JInt 100]),
             (''fieldLabels'', JList [JStr ''q1'']),
             (''bubblesGap'', JInt 40),
             (''labelsGap'', JInt 50)])])]"

section \<open>Processing (src/api_adapter.py)\<close>

subsection \<open>Collaborators and state\<close>

text \<open>
  The recognition pipeline, the template class, the scorer and OpenCV are collaborators
  whose code is not among the sources. Each is a function that returns its result or raises;
  the types of decoded images, template objects, image processors and evaluation
  configurations are left open. \<open>cv2_imdecode\<close> is \<open>cv2.imdecode(np.frombuffer(b, np.uint8),
  cv2.IMREAD_GRAYSCALE)\<close>, which gives \<open>None\<close> for bytes that are no image and raises on an
  empty buffer. \<open>Template_from_dict\<close> receives the files written so far, since it reads the
  marker image from the path the template names. \<open>png_base64\<close> is \<open>cv2.imencode\<close> followed by
  the base64 encoding.
\<close>

record ('img, 'tpl, 'ops, 'ev) env =
  cv2_imdecode :: "bytes \<Rightarrow> py_exception + 'img option"
  image_shape :: "'img \<Rightarrow> int list"
  png_base64 :: "'img \<Rightarrow> py_exception + string"
  Template_from_dict :: "json \<Rightarrow> json \<Rightarrow> string option \<Rightarrow> (string \<Rightarrow> 'img option) \<Rightarrow> py_exception + 'tpl"
  new_ImageInstanceOps :: "json \<Rightarrow> py_exception + 'ops"
  apply_preprocessors :: "'ops \<Rightarrow> string \<Rightarrow> 'img \<Rightarrow> 'tpl \<Rightarrow> py_exception + 'img"
  read_omr_response :: "'ops \<Rightarrow> 'tpl \<Rightarrow> 'img \<Rightarrow> string \<Rightarrow> py_exception + (json \<times> 'img option \<times> int \<times> int)"
  get_concatenated_response :: "json \<Rightarrow> 'tpl \<Rightarrow> py_exception + json"
  new_EvaluationConfig :: "json \<Rightarrow> 'tpl \<Rightarrow> py_exception + 'ev"
  evaluate_concatenated_response :: "json \<Rightarrow> 'ev \<Rightarrow> py_exception + (real \<times> json)"
  core_validator :: "json \<Rightarrow> py_exception + unit"
  TEMPLATE_FILENAME :: string

text \<open>
  What processing can change: the contents of the module-level \<open>CONFIG_DEFAULTS\<close>, the image
  files written under \<open>/tmp\<close>, and the two dictionaries of the request being served, which
  the adapter receives by reference: its \<open>template_data\<close> and its \<open>config_data\<close> (\<open>JNull\<close>
  for \<open>None\<close>).
\<close>

record 'img state =
  config_defaults :: json
  files :: "string \<Rightarrow> 'img option"
  caller_template :: json
  caller_config :: json

subsection \<open>Result dictionaries\<close>

record result_metadata =
  multi_marked :: bool
  multi_roll :: bool
  multi_marked_count :: int
  image_dimensions :: "int list"

text \<open>A per-item result; a key the dictionary lacks is \<open>None\<close>.\<close>

record item_result =
  status :: string
  file_name :: string
  response :: "json option"
  raw_response :: "json option"
  metadata :: "result_metadata option"
  score :: "real option"
  evaluation :: "json option"
  processed_image :: "string option"
  message :: "message option"

definition error_result :: "string \<Rightarrow> message \<Rightarrow> item_result" where
  "error_result name msg =
     \<lparr>status = ''error'', file_name = name, response = None, raw_response = None, metadata = None,
      score = None, evaluation = None, processed_image = None, message = Some msg\<rparr>"

text \<open>The batch dictionary; \<open>batch_status\<close> is its key \<open>status\<close>.\<close>

record batch_result =
  batch_status :: string
  total :: nat
  successful :: nat
  failed :: nat
  results :: "item_result list"

subsection \<open>\<open>bytes_to_numpy\<close> (api/utils.py)\<close>

definition bytes_to_numpy ::
  "('img, 'tpl, 'ops, 'ev) env \<Rightarrow> bytes \<Rightarrow> py_exception + 'img option" where
  "bytes_to_numpy env image_bytes = cv2_imdecode env image_bytes"

definition numpy_to_base64 ::
  "('img, 'tpl, 'ops, 'ev) env \<Rightarrow> 'img \<Rightarrow> py_exception + string" where
  "numpy_to_base64 env image_array = png_base64 env image_array"

subsection \<open>\<open>_create_template_from_dict\<close>\<close>

definition temp_marker_path :: string where
  "temp_marker_path = ''/tmp/omr_marker_temp.jpg''"

text \<open>\<open>cv2.imwrite(path, image)\<close>: raises on \<open>None\<close>, writes the file otherwise.\<close>

definition cv2_imwrite ::
  "string \<Rightarrow> 'img option \<Rightarrow> (string \<Rightarrow> 'img option) \<Rightarrow> py_exception + (string \<Rightarrow> 'img option)" where
  "cv2_imwrite path marker_image fs =
     (case marker_image of None \<Rightarrow> Inl Cv2Error | Some img \<Rightarrow> Inr (fs(path \<mapsto> img)))"

text \<open>
  Iterating an object: a list yields its elements, a dictionary its keys, a string its
  characters; the other objects are not iterable.
\<close>

fun py_iter :: "json \<Rightarrow> py_exception + json list" where
  "py_iter (JList xs) = Inr xs"
| "py_iter (JDict d) = Inr (map (\<lambda>kv. JStr (fst kv)) d)"
| "py_iter (JStr s) = Inr (map (\<lambda>c. JStr [c]) s)"
| "py_iter other = Inl TypeError"

text \<open>\<open>obj.get(key)\<close>: only a dictionary has the method; a missing key gives \<open>None\<close>.\<close>

fun py_get :: "json \<Rightarrow> string \<Rightarrow> py_exception + json" where
  "py_get (JDict d) key = Inr (case map_of d key of None \<Rightarrow> JNull | Some v \<Rightarrow> v)"
| "py_get other key = Inl AttributeError"

text \<open>
  \<open>os.path.join(a, b)\<close> on POSIX: an absolute \<open>b\<close> wins, otherwise \<open>b\<close> is appended after
  a separator unless \<open>a\<close> is empty or ends with one; \<open>b\<close> must be a string.
\<close>

fun os_path_join :: "string \<Rightarrow> json \<Rightarrow> py_exception + string" where
  "os_path_join a (JStr b) =
     Inr (if b \<noteq> [] \<and> hd b = CHR ''/'' then b
          else if a = [] \<or> last a = CHR ''/'' then a @ b
          else a @ ''/'' @ b)"
| "os_path_join a other = Inl TypeError"

text \<open>
  The body of the first loop (lines 253 to 261) for one processor: the outcome, the
  processor after it and the files after it.
\<close>

definition persist_marker_step ::
  "('img, 'tpl, 'ops, 'ev) env \<Rightarrow> bytes \<Rightarrow> json \<Rightarrow> (string \<Rightarrow> 'img option) \<Rightarrow>
   (py_exception + unit) \<times> json \<times> (string \<Rightarrow> 'img option)" where
  "persist_marker_step env marker_bytes processor fs =
     (case py_get processor ''name'' of
        Inl e \<Rightarrow> (Inl e, processor, fs)
      | Inr name \<Rightarrow>
          if name \<noteq> JStr ''CropOnMarkers'' then (Inr (), processor, fs)
          else (case bytes_to_numpy env marker_bytes of
                  Inl e \<Rightarrow> (Inl e, processor, fs)
                | Inr marker_image \<Rightarrow>
                    (case cv2_imwrite temp_marker_path marker_image fs of
                       Inl e \<Rightarrow> (Inl e, processor, fs)
                     | Inr fs' \<Rightarrow>
                         (case py_in ''options'' processor of
                            Inl e \<Rightarrow> (Inl e, processor, fs')
                          | Inr has_options \<Rightarrow>
                              if \<not> has_options then (Inr (), processor, fs')
                              else (case py_setitem2 processor ''options'' ''relativePath''
                                           (JStr temp_marker_path) of
                                      Inl e \<Rightarrow> (Inl e, processor, fs')
                                    | Inr processor' \<Rightarrow> (Inr (), processor', fs'))))))"

text \<open>The body of the second loop (lines 266 to 271) for one processor.\<close>

definition resolve_relative_step ::
  "string \<Rightarrow> json \<Rightarrow> (string \<Rightarrow> 'img option) \<Rightarrow>
   (py_exception + unit) \<times> json \<times> (string \<Rightarrow> 'img option)" where
  "resolve_relative_step relative_dir processor fs =
     (case py_get processor ''name'' of
        Inl e \<Rightarrow> (Inl e, processor, fs)
      | Inr name \<Rightarrow>
          if name \<noteq> JStr ''CropOnMarkers'' then (Inr (), processor, fs)
          else (case bind_r (py_in ''options'' processor) (\<lambda>has_options.
                       if \<not> has_options then Inr processor
                       else bind_r (py_getitem processor ''options'') (\<lambda>options.
                            bind_r (py_in ''relativePath'' options) (\<lambda>has_path.
                            if \<not> has_path then Inr processor
                            else bind_r (py_getitem options ''relativePath'') (\<lambda>rel_path.
                                 bind_r (os_path_join relative_dir rel_path) (\<lambda>abs_path.
                                 py_setitem2 processor ''options'' ''relativePath'' (JStr abs_path)))))) of
                  Inl e \<Rightarrow> (Inl e, processor, fs)
                | Inr processor' \<Rightarrow> (Inr (), processor', fs)))"

text \<open>
  A \<open>for\<close> loop over processors that are changed in place: it stops at the first raise,
  and the changes made until then stay.
\<close>

fun for_processors ::
  "(json \<Rightarrow> 'f \<Rightarrow> (py_exception + unit) \<times> json \<times> 'f) \<Rightarrow> json list \<Rightarrow> 'f \<Rightarrow>
   (py_exception + unit) \<times> json list \<times> 'f" where
  "for_processors step [] fs = (Inr (), [], fs)"
| "for_processors step (p # ps) fs =
     (case step p fs of
        (Inl e, p', fs') \<Rightarrow> (Inl e, p' # ps, fs')
      | (Inr u, p', fs') \<Rightarrow>
          (case for_processors step ps fs' of (r, ps', fs'') \<Rightarrow> (r, p' # ps', fs'')))"

text \<open>
  \<open>for processor in template_data['preProcessors']: ...\<close>. Only the elements of a list are
  objects of the template; the keys of a dictionary and the characters of a string are
  iterated too, and changing them changes nothing in the template.
\<close>

definition for_preProcessors ::
  "(json \<Rightarrow> 'f \<Rightarrow> (py_exception + unit) \<times> json \<times> 'f) \<Rightarrow> json \<Rightarrow> 'f \<Rightarrow>
   (py_exception + unit) \<times> json \<times> 'f" where
  "for_preProcessors step template_data fs =
     (case py_getitem template_data ''preProcessors'' of
        Inl e \<Rightarrow> (Inl e, template_data, fs)
      | Inr pre \<Rightarrow>
          (case py_iter pre of
             Inl e \<Rightarrow> (Inl e, template_data, fs)
           | Inr processors \<Rightarrow>
               (case for_processors step processors fs of
                  (r, processors', fs') \<Rightarrow>
                    (r,
                     (if is_list pre
                      then (case py_setitem template_data ''preProcessors'' (JList processors') of
                              Inl e \<Rightarrow> template_data
                            | Inr template_data' \<Rightarrow> template_data')
                      else template_data),
                     fs'))))"

text \<open>Truth value of optional bytes and of an optional string.\<close>

definition truthy_opt :: "'a list option \<Rightarrow> bool" where
  "truthy_opt x = (case x of None \<Rightarrow> False | Some xs \<Rightarrow> xs \<noteq> [])"

text \<open>
  Lines 249 to 271: which loop runs, if any. \<open>and\<close> looks at \<open>template_data\<close> only when its
  left operand is true, and the \<open>elif\<close> is evaluated only when the \<open>if\<close> condition is false.
\<close>

definition rewrite_marker_paths ::
  "('img, 'tpl, 'ops, 'ev) env \<Rightarrow> bytes option \<Rightarrow> string option \<Rightarrow> json \<Rightarrow> (string \<Rightarrow> 'img option) \<Rightarrow>
   (py_exception + unit) \<times> json \<times> (string \<Rightarrow> 'img option)" where
  "rewrite_marker_paths env marker_data relative_dir template_data fs =
     (case (if truthy_opt marker_data then py_in ''preProcessors'' template_data else Inr False) of
        Inl e \<Rightarrow> (Inl e, template_data, fs)
      | Inr True \<Rightarrow> for_preProcessors (persist_marker_step env (the marker_data)) template_data fs
      | Inr False \<Rightarrow>
          (case (if truthy_opt relative_dir then py_in ''preProcessors'' template_data else Inr False) of
             Inl e \<Rightarrow> (Inl e, template_data, fs)
           | Inr True \<Rightarrow> for_preProcessors (resolve_relative_step (the relative_dir)) template_data fs
           | Inr False \<Rightarrow> (Inr (), template_data, fs)))"

text \<open>
  The whole function, on the state: the caller's \<open>template_data\<close> and the files are as the
  loops left them, also when the function raises.
\<close>

definition create_template_from_dict ::
  "('img, 'tpl, 'ops, 'ev) env \<Rightarrow> 'img state \<Rightarrow> json \<Rightarrow> bytes option \<Rightarrow> string option \<Rightarrow>
   (py_exception + 'tpl) \<times> 'img state" where
  "create_template_from_dict env st config marker_data relative_dir =
     (case rewrite_marker_paths env marker_data relative_dir (caller_template st) (files st) of
        (r, template_data', fs') \<Rightarrow>
          (let st' = st\<lparr>caller_template := template_data', files := fs'\<rparr>
           in case r of
                Inl e \<Rightarrow> (Inl e, st')
              | Inr u \<Rightarrow> (Template_from_dict env template_data' config relative_dir fs', st')))"

subsection \<open>\<open>process_omr_image\<close>\<close>

text \<open>
  Lines 70 to 117, once the image is decoded and configuration and template are there.
  The collaborators are taken to leave the state alone.
\<close>

definition read_item ::
  "('img, 'tpl, 'ops, 'ev) env \<Rightarrow> json \<Rightarrow> 'tpl \<Rightarrow> 'img \<Rightarrow> string \<Rightarrow> bool \<Rightarrow> json \<Rightarrow>
   py_exception + item_result" where
  "read_item env config template decoded name include_image evaluation_data =
     bind_r (new_ImageInstanceOps env config) (\<lambda>image_ops.
     bind_r (apply_preprocessors env image_ops name decoded template) (\<lambda>preprocessed.
     bind_r (read_omr_response env image_ops template preprocessed name)
       (\<lambda>(omr_response, final_marked, n_multi_marked, n_multi_roll).
     bind_r (get_concatenated_response env omr_response template) (\<lambda>concatenated_response.
     let result =
           \<lparr>status = ''success'', file_name = name,
            response = Some concatenated_response, raw_response = Some omr_response,
            metadata = Some
              \<lparr>multi_marked = (n_multi_marked \<noteq> 0), multi_roll = (n_multi_roll \<noteq> 0),
               multi_marked_count = n_multi_marked, image_dimensions = take 2 (image_shape env decoded)\<rparr>,
            score = None, evaluation = None, processed_image = None, message = None\<rparr>
     in bind_r (if truthy evaluation_data
                then bind_r (new_EvaluationConfig env evaluation_data template) (\<lambda>evaluation_config.
                     bind_r (evaluate_concatenated_response env concatenated_response evaluation_config)
                       (\<lambda>(sc, evaluation_result).
                     Inr (result\<lparr>score := Some sc, evaluation := Some evaluation_result\<rparr>)))
                else Inr result) (\<lambda>result.
        case (if include_image then final_marked else None) of
          None \<Rightarrow> Inr result
        | Some marked \<Rightarrow>
            bind_r (numpy_to_base64 env marked) (\<lambda>encoded.
            Inr (result\<lparr>processed_image := Some encoded\<rparr>)))))))"

text \<open>
  The \<open>try\<close> block (lines 49 to 117): what it returns or raises, and the state it leaves.
\<close>

definition process_omr_image_body ::
  "('img, 'tpl, 'ops, 'ev) env \<Rightarrow> 'img state \<Rightarrow> bytes \<Rightarrow> bytes option \<Rightarrow> string \<Rightarrow> bool \<Rightarrow> bool \<Rightarrow> json \<Rightarrow>
   (py_exception + item_result) \<times> 'img state" where
  "process_omr_image_body env st image_data marker_data name include_image auto_align evaluation_data =
     (case bytes_to_numpy env image_data of
        Inl e \<Rightarrow> (Inl e, st)
      | Inr None \<Rightarrow> (Inr (error_result name (Text ''Failed to decode image'')), st)
      | Inr (Some decoded) \<Rightarrow>
          (case prepare_config (config_defaults st) (caller_config st) auto_align True of
             Inl e \<Rightarrow> (Inl e, st)
           | Inr (config, config_data') \<Rightarrow>
               (case create_template_from_dict env
                       (st\<lparr>config_defaults := config, caller_config := config_data'\<rparr>)
                       config marker_data None of
                  (Inl e, st') \<Rightarrow> (Inl e, st')
                | (Inr template, st') \<Rightarrow>
                    (read_item env config template decoded name include_image evaluation_data, st'))))"

text \<open>The function: \<open>except Exception as e\<close> turns every raise into an error result.\<close>

definition process_omr_image ::
  "('img, 'tpl, 'ops, 'ev) env \<Rightarrow> 'img state \<Rightarrow> bytes \<Rightarrow> bytes option \<Rightarrow> string \<Rightarrow> bool \<Rightarrow> bool \<Rightarrow> json \<Rightarrow>
   item_result \<times> 'img state" where
  "process_omr_image env st image_data marker_data name include_image auto_align evaluation_data =
     (case process_omr_image_body env st image_data marker_data name include_image auto_align
             evaluation_data of
        (Inr result, st') \<Rightarrow> (result, st')
      | (Inl e, st') \<Rightarrow> (error_result name (StrOf e), st'))"

subsection \<open>\<open>process_omr_batch\<close>\<close>

text \<open>
  The loop over \<open>zip(images_data, file_names)\<close> (lines 157 to 174), with the results so far
  and the two counters; \<open>zip\<close> ends with the shorter list.
\<close>

fun batch_loop ::
  "('img, 'tpl, 'ops, 'ev) env \<Rightarrow> bytes option \<Rightarrow> bool \<Rightarrow> bool \<Rightarrow> json \<Rightarrow>
   (bytes \<times> string) list \<Rightarrow> item_result list \<times> nat \<times> nat \<Rightarrow> 'img state \<Rightarrow>
   (item_result list \<times> nat \<times> nat) \<times> 'img state" where
  "batch_loop env marker_data include_images auto_align evaluation_data [] acc st = (acc, st)"
| "batch_loop env marker_data include_images auto_align evaluation_data ((image_data, name) # rest)
     (rs, n_ok, n_failed) st =
     (case process_omr_image env st image_data marker_data name include_images auto_align
             evaluation_data of
        (result, st') \<Rightarrow>
          batch_loop env marker_data include_images auto_align evaluation_data rest
            (rs @ [result],
             (if status result = ''success'' then n_ok + 1 else n_ok),
             (if status result = ''success'' then n_failed else n_failed + 1)) st')"

definition process_omr_batch ::
  "('img, 'tpl, 'ops, 'ev) env \<Rightarrow> 'img state \<Rightarrow> bytes list \<Rightarrow> string list \<Rightarrow> bytes option \<Rightarrow> bool \<Rightarrow> bool \<Rightarrow>
   json \<Rightarrow> batch_result \<times> 'img state" where
  "process_omr_batch env st images_data file_names marker_data include_images auto_align evaluation_data =
     (case batch_loop env marker_data include_images auto_align evaluation_data
             (zip images_data file_names) ([], 0, 0) st of
        ((rs, n_ok, n_failed), st') \<Rightarrow>
          (\<lparr>batch_status = ''success'', total = length images_data, successful = n_ok,
            failed = n_failed, results = rs\<rparr>, st'))"

subsection \<open>\<open>process_dir_for_api\<close>\<close>

text \<open>
  What the adapter returns to the routes: the dictionary \<open>{'status': 'error', 'message': m}\<close>,
  a per-item result, or a batch dictionary.
\<close>

datatype payload = ErrorPayload message | ItemPayload item_result | BatchPayload batch_result

text \<open>
  What the function sees of the file system: the directory as given and as \<open>str(Path(...))\<close>,
  whether it exists, the template file if there is one, as \<open>json.load\<close> reads it, the config
  file if there is one, as the repository's \<open>open_config_with_defaults\<close> reads it, the
  entries of the directory in the order of \<open>iterdir()\<close> (name, whether a regular file,
  contents) and the contents of \<open>omr_marker.jpg\<close> if it exists.
\<close>

record dir_view =
  input_dir :: string
  input_path :: string
  dir_exists :: bool
  template_file :: "(py_exception + json) option"
  config_file :: "(py_exception + json) option"
  dir_entries :: "(string \<times> bool \<times> bytes) list"
  marker_file :: "bytes option"

text \<open>\<open>str.lower()\<close> on the ASCII letters, and \<open>Path.suffix\<close> of a file name.\<close>

definition ascii_lower :: "char \<Rightarrow> char" where
  "ascii_lower c =
     (let n = (of_char c :: nat) in if 65 \<le> n \<and> n \<le> 90 then char_of (n + 32) else c)"

definition lower :: "string \<Rightarrow> string" where
  "lower s = map ascii_lower s"

definition after_last_dot :: "string \<Rightarrow> string" where
  "after_last_dot name = rev (takeWhile (\<lambda>c. c \<noteq> CHR ''.'') (rev name))"

definition path_suffix :: "string \<Rightarrow> string" where
  "path_suffix name =
     (if CHR ''.'' \<in> set name
      then (let i = length name - length (after_last_dot name) - 1
            in if 0 < i \<and> i < length name - 1 then drop i name else [])
      else [])"

text \<open>Lines 326 to 336: the image files, marker files left out.\<close>

definition image_files_of :: "(string \<times> bool \<times> bytes) list \<Rightarrow> (string \<times> bool \<times> bytes) list" where
  "image_files_of entries =
     filter (\<lambda>(name, is_file, content). \<not> str_contains ''marker'' (lower name))
       (filter (\<lambda>(name, is_file, content).
                  is_file \<and> lower (path_suffix name) \<in> {''.png'', ''.jpg'', ''.jpeg''}) entries)"

text \<open>
  One pass of the loop (lines 383 to 438): the result appended and whether \<open>successful\<close>
  (rather than \<open>failed\<close>) was incremented.
\<close>

definition dir_item ::
  "('img, 'tpl, 'ops, 'ev) env \<Rightarrow> 'tpl \<Rightarrow> 'ops \<Rightarrow> bool \<Rightarrow> bytes \<Rightarrow> string \<Rightarrow> item_result \<times> bool" where
  "dir_item env template image_ops include_images image_data name =
     (case bind_r (bytes_to_numpy env image_data) (\<lambda>decoded_opt.
             case decoded_opt of
               None \<Rightarrow> Inr (error_result name (Text ''Failed to decode image''), False)
             | Some decoded \<Rightarrow>
                 bind_r (apply_preprocessors env image_ops name decoded template) (\<lambda>preprocessed.
                 bind_r (read_omr_response env image_ops template preprocessed name)
                   (\<lambda>(omr_response, final_marked, n_multi_marked, n_multi_roll).
                 bind_r (get_concatenated_response env omr_response template) (\<lambda>concatenated_response.
                 let result =
                       \<lparr>status = ''success'', file_name = name,
                        response = Some concatenated_response, raw_response = Some omr_response,
                        metadata = Some
                          \<lparr>multi_marked = (n_multi_marked \<noteq> 0), multi_roll = (n_multi_roll \<noteq> 0),
                           multi_marked_count = n_multi_marked,
                           image_dimensions = take 2 (image_shape env decoded)\<rparr>,
                        score = None, evaluation = None, processed_image = None, message = None\<rparr>
                 in case (if include_images then final_marked else None) of
                      None \<Rightarrow> Inr (result, True)
                    | Some marked \<Rightarrow>
                        bind_r (numpy_to_base64 env marked) (\<lambda>encoded.
                        Inr (result\<lparr>processed_image := Some encoded\<rparr>, True)))))) of
        Inr r \<Rightarrow> r
      | Inl e \<Rightarrow> (error_result name (StrOf e), False))"

fun dir_loop ::
  "('img, 'tpl, 'ops, 'ev) env \<Rightarrow> 'tpl \<Rightarrow> 'ops \<Rightarrow> bool \<Rightarrow> (bytes \<times> string) list \<Rightarrow>
   item_result list \<times> nat \<times> nat \<Rightarrow> item_result list \<times> nat \<times> nat" where
  "dir_loop env template image_ops include_images [] acc = acc"
| "dir_loop env template image_ops include_images ((image_data, name) # rest) (rs, n_ok, n_failed) =
     (case dir_item env template image_ops include_images image_data name of
        (result, ok) \<Rightarrow>
          dir_loop env template image_ops include_images rest
            (rs @ [result], (if ok then n_ok + 1 else n_ok), (if ok then n_failed else n_failed + 1)))"

text \<open>
  The function. Configuration, template and image processor are made once, before the
  loop and outside any \<open>try\<close>: a raise there leaves the function.
\<close>

definition process_dir_for_api ::
  "('img, 'tpl, 'ops, 'ev) env \<Rightarrow> 'img state \<Rightarrow> dir_view \<Rightarrow> bool \<Rightarrow> bool \<Rightarrow>
   (py_exception + payload) \<times> 'img state" where
  "process_dir_for_api env st dir include_images auto_align =
     (if \<not> dir_exists dir
      then (Inr (ErrorPayload (Text (''Directory not found: '' @ input_dir dir))), st)
      else case template_file dir of
        None \<Rightarrow>
          (Inr (ErrorPayload (Text (''Template file not found in directory: '' @ TEMPLATE_FILENAME env))), st)
      | Some (Inl e) \<Rightarrow> (Inl e, st)
      | Some (Inr template_data) \<Rightarrow>
          (case (case config_file dir of None \<Rightarrow> Inr JNull | Some c \<Rightarrow> c) of
             Inl e \<Rightarrow> (Inl e, st)
           | Inr config_data \<Rightarrow>
               (let st = st\<lparr>caller_template := template_data, caller_config := config_data\<rparr>;
                    image_files = image_files_of (dir_entries dir)
                in if image_files = []
                   then (Inr (ErrorPayload (Text ''No image files found in directory'')), st)
                   else
                     (let marker_data = marker_file dir;
                          images_data = map (\<lambda>(name, is_file, content). content) image_files;
                          file_names = map (\<lambda>(name, is_file, content). name) image_files
                      in case prepare_config (config_defaults st) config_data auto_align True of
                           Inl e \<Rightarrow> (Inl e, st)
                         | Inr (config, config_data') \<Rightarrow>
                             (case create_template_from_dict env
                                     (st\<lparr>config_defaults := config, caller_config := config_data'\<rparr>)
                                     config marker_data (Some (input_path dir)) of
                                (Inl e, st') \<Rightarrow> (Inl e, st')
                              | (Inr template, st') \<Rightarrow>
                                  (case new_ImageInstanceOps env config of
                                     Inl e \<Rightarrow> (Inl e, st')
                                   | Inr image_ops \<Rightarrow>
                                       (case dir_loop env template image_ops include_images
                                               (zip images_data file_names) ([], 0, 0) of
                                          (rs, n_ok, n_failed) \<Rightarrow>
                                            (Inr (BatchPayload
                                                   \<lparr>batch_status = ''success'', total = length images_data,
                                                    successful = n_ok, failed = n_failed, results = rs\<rparr>),
                                             st'))))))))"

section \<open>The upload route (api/routes.py, api/utils.py)\<close>

text \<open>\<open>allowed_file\<close>: \<open>filename.rsplit('.', 1)[1]\<close> is what follows the last dot.\<close>

definition allowed_file :: "string \<Rightarrow> string list \<Rightarrow> bool" where
  "allowed_file filename extensions =
     (CHR ''.'' \<in> set filename \<and> lower (after_last_dot filename) \<in> set extensions)"

definition validate_config_json :: "json \<Rightarrow> bool" where
  "validate_config_json config_data = is_dict config_data"

text \<open>
  An entry of \<open>temp_files\<close>: the routes append the bytes they read; \<open>cleanup_temp_files\<close> acts
  on the entries that are strings naming an existing file and skips the others.
\<close>

datatype temp_entry = TempPath string | TempBytes bytes

fun cleanup_temp_files :: "temp_entry list \<Rightarrow> (string \<Rightarrow> 'img option) \<Rightarrow> (string \<Rightarrow> 'img option)" where
  "cleanup_temp_files [] fs = fs"
| "cleanup_temp_files (TempPath filepath # rest) fs =
     cleanup_temp_files rest (if fs filepath \<noteq> None then fs(filepath := None) else fs)"
| "cleanup_temp_files (TempBytes b # rest) fs = cleanup_temp_files rest fs"

text \<open>
  A multipart request, its JSON parts already parsed (a part that does not parse is its
  exception): the image files with their names, the template given as a file or a form
  field, the default template on disk if there is one, the same for the configuration
  (the default read by \<open>open_config_with_defaults\<close>) and for the marker, and the two
  options.
\<close>

record upload_request =
  image_files :: "(string \<times> bytes) list"
  template_upload :: "(py_exception + json) option"
  default_template :: "(py_exception + json) option"
  config_upload :: "(py_exception + json) option"
  default_config :: "(py_exception + json) option"
  marker_upload :: "bytes option"
  default_marker :: "bytes option"
  want_image :: bool
  want_auto_align :: bool

text \<open>Lines 151 to 161: is there a \<open>CropOnMarkers\<close> step (the loop stops at the first).\<close>

fun has_crop_on_markers :: "json list \<Rightarrow> py_exception + bool" where
  "has_crop_on_markers [] = Inr False"
| "has_crop_on_markers (processor # rest) =
     bind_r (py_get processor ''name'') (\<lambda>name.
     if name = JStr ''CropOnMarkers'' then Inr True else has_crop_on_markers rest)"

definition default_marker_for :: "upload_request \<Rightarrow> json \<Rightarrow> py_exception + bytes option" where
  "default_marker_for req template_data =
     bind_r (py_in ''preProcessors'' template_data) (\<lambda>has_pre.
     if \<not> has_pre then Inr None
     else bind_r (py_getitem template_data ''preProcessors'') (\<lambda>pre.
          bind_r (py_iter pre) (\<lambda>processors.
          bind_r (has_crop_on_markers processors) (\<lambda>found.
          Inr (if found then default_marker req else None)))))"

text \<open>
  \<open>_process_file_upload\<close>: what it returns or raises, \<open>temp_files\<close> after it and the state
  after it. The results of \<open>validate_template_json\<close> and \<open>validate_config_json\<close> are not
  looked at (lines 121 and 141).
\<close>

definition process_file_upload ::
  "('img, 'tpl, 'ops, 'ev) env \<Rightarrow> 'img state \<Rightarrow> upload_request \<Rightarrow> temp_entry list \<Rightarrow>
   (py_exception + payload) \<times> temp_entry list \<times> 'img state" where
  "process_file_upload env st req temp_files =
     (if image_files req = [] then (Inl (ValueError ''No image file provided''), temp_files, st)
      else case find (\<lambda>(filename, content). \<not> allowed_file filename [''png'', ''jpg'', ''jpeg''])
                  (image_files req) of
        Some (filename, content) \<Rightarrow>
          (Inl (ValueError (''Invalid image file: '' @ filename)), temp_files, st)
      | None \<Rightarrow>
      (case (case template_upload req of
               Some t \<Rightarrow> t
             | None \<Rightarrow> (case default_template req of
                          Some t \<Rightarrow> t
                        | None \<Rightarrow> Inl (ValueError ''No template provided and default template not found''))) of
         Inl e \<Rightarrow> (Inl e, temp_files, st)
       | Inr template_data \<Rightarrow>
      (case validate_template_json (core_validator env) template_data False of
         Inl e \<Rightarrow> (Inl e, temp_files, st)
       | Inr ignored \<Rightarrow>
      (case (case config_upload req of
               Some c \<Rightarrow> c
             | None \<Rightarrow> (case default_config req of Some c \<Rightarrow> c | None \<Rightarrow> Inr JNull)) of
         Inl e \<Rightarrow> (Inl e, temp_files, st)
       | Inr config_data \<Rightarrow>
      (let ignored = (if truthy config_data then validate_config_json config_data else False);
           temp_files = (case marker_upload req of
                           Some m \<Rightarrow> temp_files @ [TempBytes m]
                         | None \<Rightarrow> temp_files)
       in case (case marker_upload req of
                  Some m \<Rightarrow> Inr (Some m)
                | None \<Rightarrow> default_marker_for req template_data) of
            Inl e \<Rightarrow> (Inl e, temp_files, st)
          | Inr marker_data \<Rightarrow>
      (let st = st\<lparr>caller_template := template_data, caller_config := config_data\<rparr>
       in case image_files req of
            [(filename, image_data)] \<Rightarrow>
              (case process_omr_image env st image_data marker_data filename (want_image req)
                      (want_auto_align req) JNull of
                 (result, st') \<Rightarrow> (Inr (ItemPayload result), temp_files @ [TempBytes image_data], st'))
          | several \<Rightarrow>
              (case process_omr_batch env st (map snd several) (map fst several) marker_data
                      (want_image req) (want_auto_align req) JNull of
                 (result, st') \<Rightarrow>
                   (Inr (BatchPayload result), temp_files @ map (\<lambda>(filename, b). TempBytes b) several,
                    st'))))))))"

text \<open>
  \<open>process_omr\<close> for a multipart request: the status code and the dictionary answered, and
  the state once the \<open>finally\<close> clause has run. The processing time added to the
  dictionary and the CSV rendering of it are left out.
\<close>

definition process_omr ::
  "('img, 'tpl, 'ops, 'ev) env \<Rightarrow> 'img state \<Rightarrow> upload_request \<Rightarrow> (nat \<times> payload) \<times> 'img state" where
  "process_omr env st req =
     (case process_file_upload env st req [] of
        (r, temp_files, st') \<Rightarrow>
          ((case r of
              Inr result \<Rightarrow> (200, result)
            | Inl e \<Rightarrow> (500, ErrorPayload (StrOf e))),
           st'\<lparr>files := cleanup_temp_files temp_files (files st')\<rparr>))"

section \<open>What the claims about processing speak of\<close>

text \<open>
  The results of processing the given items (image bytes, file name) one after the other
  with \<open>process_omr_image\<close>, as the loop of \<open>process_omr_batch\<close> does, and the state left.
\<close>

fun run_items ::
  "('img, 'tpl, 'ops, 'ev) env \<Rightarrow> bytes option \<Rightarrow> bool \<Rightarrow> bool \<Rightarrow> json \<Rightarrow>
   (bytes \<times> string) list \<Rightarrow> 'img state \<Rightarrow> item_result list \<times> 'img state" where
  "run_items env marker_data include_images auto_align evaluation_data [] st = ([], st)"
| "run_items env marker_data include_images auto_align evaluation_data ((image_data, name) # rest) st =
     (case process_omr_image env st image_data marker_data name include_images auto_align
             evaluation_data of
        (result, st') \<Rightarrow>
          (case run_items env marker_data include_images auto_align evaluation_data rest st' of
             (rs, st'') \<Rightarrow> (result # rs, st'')))"

text \<open>The bytes decode to an image: \<open>bytes_to_numpy\<close> neither raises nor gives \<open>None\<close>.\<close>

definition decodes :: "('img, 'tpl, 'ops, 'ev) env \<Rightarrow> bytes \<Rightarrow> bool" where
  "decodes env image_data =
     (case bytes_to_numpy env image_data of Inl e \<Rightarrow> False | Inr None \<Rightarrow> False | Inr (Some decoded) \<Rightarrow> True)"

text \<open>The number of results that are failures.\<close>

definition count_failures :: "item_result list \<Rightarrow> nat" where
  "count_failures rs = length (filter (\<lambda>r. status r \<noteq> ''success'') rs)"

text \<open>
  Stand-ins for the collaborators in the concrete cases below: bytes decode when they
  start with \<open>0xFF\<close>, a template materializes and passes the core validator when it has
  \<open>fieldBlocks\<close>, and the pipeline reads one answer.
\<close>

definition stub_env :: "(bytes, json, json, json) env" where
  "stub_env =
     \<lparr>cv2_imdecode = (\<lambda>b. if b = [] then Inl Cv2Error else if hd b = 0xFF then Inr (Some b) else Inr None),
      image_shape = (\<lambda>img. [1754, 1240]),
      png_base64 = (\<lambda>img. Inr ''aW1n''),
      Template_from_dict = (\<lambda>t c rd fs. bind_r (py_getitem t ''fieldBlocks'') (\<lambda>fb. Inr t)),
      new_ImageInstanceOps = (\<lambda>c. Inr c),
      apply_preprocessors = (\<lambda>ops name img tpl. Inr img),
      read_omr_response = (\<lambda>ops tpl img name. Inr (JDict [(''q1'', JStr ''A'')], Some img, 0, 0)),
      get_concatenated_response = (\<lambda>r tpl. Inr r),
      new_EvaluationConfig = (\<lambda>e tpl. Inr e),
      evaluate_concatenated_response = (\<lambda>r ec. Inr (1, JDict [])),
      core_validator = (\<lambda>t. bind_r (py_getitem t ''fieldBlocks'') (\<lambda>fb. Inr ())),
      TEMPLATE_FILENAME = ''template.json''\<rparr>"

definition stub_state :: "json \<Rightarrow> json \<Rightarrow> bytes state" where
  "stub_state template_data config_data =
     \<lparr>config_defaults = CONFIG_DEFAULTS_model, files = (\<lambda>path. None),
      caller_template = template_data, caller_config = config_data\<rparr>"

text \<open>A template with a \<open>CropOnMarkers\<close> step, and one without field blocks.\<close>

definition template_with_marker :: json where
  "template_with_marker = JDict
     [(''pageDimensions'', JList [JInt 1240, JInt 1754]),
      (''bubbleDimensions'', JList [JInt 18, JInt 18]),
      (''preProcessors'', JList
         [JDict [(''name'', JStr ''CropOnMarkers''),
                 (''options'', JDict [(''relativePath'', JStr ''omr_marker.jpg'')])]]),
      (''fieldBlocks'', JDict
         [(''q1'', JDict
            [(''fieldType'', JStr ''QTYPE_MCQ4''),
             (''origin'', JList [JInt 100, JInt 100]),
             (''fieldLabels'', JList [JStr ''q1''])])])]"

definition template_without_blocks :: json where
  "template_without_blocks = JDict
     [(''pageDimensions'', JList [JInt 1240, JInt 1754]),
      (''bubbleDimensions'', JList [JInt 18, JInt 18])]"

text \<open>The results of \<open>process_omr_batch\<close> on a batch given as a list of items.\<close>

definition batch_results ::
  "('img, 'tpl, 'ops, 'ev) env \<Rightarrow> 'img state \<Rightarrow> bytes option \<Rightarrow> bool \<Rightarrow> bool \<Rightarrow> json \<Rightarrow>
   (bytes \<times> string) list \<Rightarrow> item_result list" where
  "batch_results env st marker_data include_images auto_align evaluation_data items =
     results (fst (process_omr_batch env st (map fst items) (map snd items) marker_data include_images
                     auto_align evaluation_data))"

text \<open>Every entry of \<open>temp_files\<close> is bytes, none a path.\<close>

definition only_bytes :: "temp_entry list \<Rightarrow> bool" where
  "only_bytes temp_files = list_all (\<lambda>entry. case entry of TempBytes b \<Rightarrow> True | TempPath p \<Rightarrow> False) temp_files"

text \<open>
  A multipart request with the given images, template and marker, no configuration and
  no default files on disk.
\<close>

definition upload_of :: "(string \<times> bytes) list \<Rightarrow> json \<Rightarrow> bytes option \<Rightarrow> upload_request" where
  "upload_of images template_data marker =
     \<lparr>image_files = images, template_upload = Some (Inr template_data), default_template = None,
      config_upload = None, default_config = None, marker_upload = marker, default_marker = None,
      want_image = False, want_auto_align = False\<rparr>"

text \<open>A template with a \<open>CropOnMarkers\<close> step and no field blocks.\<close>

definition template_with_marker_only :: json where
  "template_with_marker_only = JDict
     [(''pageDimensions'', JList [JInt 1240, JInt 1754]),
      (''bubbleDimensions'', JList [JInt 18, JInt 18]),
      (''preProcessors'', JList
         [JDict [(''name'', JStr ''CropOnMarkers''),
                 (''options'', JDict [(''relativePath'', JStr ''omr_marker.jpg'')])]])]"







section \<open>Facts about the merge\<close>

lemma bind_r_simps [simp]:
  "bind_r (Inl e) f = Inl e"
  "bind_r (Inr x) f = f x"
  by (simp_all add: bind_r_def)

lemma bind_r_eq_Inr:
  "bind_r m f = Inr y \<longleftrightarrow> (\<exists>x. m = Inr x \<and> f x = Inr y)"
  by (cases m) simp_all


lemma keys_dict_strategy_merge:
  "set (map fst (dict_strategy_merge b n)) = set (map fst b) \<union> set (map fst n)"
proof (induction n arbitrary: b)
  case Nil
  then show ?case by simp
next
  case (Cons a n)
  obtain k' v' where a: "a = (k', v')" by (cases a)
  show ?case using Cons.IH by (auto simp: a dom_update)
qed







section \<open>Facts about item assignment\<close>

lemma py_setitem2_Inr:
  "py_setitem2 obj a b v = Inr obj' \<longleftrightarrow>
   (\<exists>d sd. obj = JDict d \<and> map_of d a = Some (JDict sd) \<and>
      obj' = JDict (AList.update a (JDict (AList.update b v sd)) d))"
  by (cases obj; cases "lookup_path obj [a]")
     (auto simp: py_setitem2_def bind_r_eq_Inr split: option.splits json.splits elim!: py_setitem.elims)


lemma lookup_update_other:
  "k \<noteq> a \<Longrightarrow> lookup_path (JDict (AList.update a x d)) (k # ks) = lookup_path (JDict d) (k # ks)"
  by (simp add: update_conv')

lemma lookup_update_same:
  "lookup_path (JDict (AList.update a x d)) (a # ks) = lookup_path x ks"
  by (simp add: update_conv')






lemma keys_py_setitem2:
  "py_setitem2 obj a b v = Inr obj' \<Longrightarrow> is_dict obj' \<and> set (keys_of obj') = set (keys_of obj)"
  by (force simp: py_setitem2_Inr dom_update dest: map_of_SomeD)

lemma keys_ensure_dict_key:
  "ensure_dict_key obj k = Inr obj' \<Longrightarrow> set (keys_of obj) \<subseteq> set (keys_of obj')"
  by (cases obj) (force simp: ensure_dict_key_def bind_r_eq_Inr dom_update split: if_splits)+

section \<open>Facts about the steps of configuration resolution\<close>






lemma suppress_display_keys:
  "suppress_display c = Inr c' \<Longrightarrow> is_dict c' \<and> set (keys_of c) \<subseteq> set (keys_of c')"
  by (auto simp: suppress_display_def bind_r_eq_Inr dest!: keys_ensure_dict_key keys_py_setitem2)





lemma set_auto_align_keys:
  "set_auto_align c aa = Inr c' \<Longrightarrow> is_dict c' \<and> set (keys_of c) \<subseteq> set (keys_of c')"
  by (auto simp: set_auto_align_def bind_r_eq_Inr dest!: keys_ensure_dict_key keys_py_setitem2)


lemma request_config_Inr:
  assumes "request_config cd aa dd = Inr cfg"
  obtains c1 c4 where
    "c1 = (if truthy cd then always_merger_merge get_default_config cd else get_default_config)"
    "(if dd then suppress_display c1 else Inr c1) = Inr c4"
    "set_auto_align c4 aa = Inr cfg"
  using assms by (auto simp: request_config_def Let_def bind_r_eq_Inr DotMap_def)



lemma request_config_keys:
  assumes "request_config cd aa dd = Inr cfg"
  shows "is_dict cfg"
    and "set (keys_of (if truthy cd then always_merger_merge get_default_config cd else get_default_config))
           \<subseteq> set (keys_of cfg)"
proof -
  from assms(1) obtain c1 c4 where
    c1: "c1 = (if truthy cd then always_merger_merge get_default_config cd else get_default_config)"
    and c4: "(if dd then suppress_display c1 else Inr c1) = Inr c4"
    and c6: "set_auto_align c4 aa = Inr cfg"
    by (rule request_config_Inr)
  show "is_dict cfg" using set_auto_align_keys [OF c6] by simp
  have "set (keys_of c1) \<subseteq> set (keys_of c4)"
    using c4 suppress_display_keys [of c1 c4] by (cases dd) auto
  also have "\<dots> \<subseteq> set (keys_of cfg)" using set_auto_align_keys [OF c6] by simp
  finally show "set (keys_of (if truthy cd then always_merger_merge get_default_config cd else get_default_config))
           \<subseteq> set (keys_of cfg)" by (simp add: c1)
qed



lemma prepare_config_Inr:
  "prepare_config D cd aa dd = Inr (snapshot, cd') \<longleftrightarrow>
   (\<exists>cfg. request_config cd aa dd = Inr cfg \<and> snapshot = always_merger_merge D cfg \<and>
      cd' = config_data_after cd aa)"
  by (auto simp: prepare_config_def bind_r_eq_Inr)




lemma dom_dict_strategy_merge:
  "fst ` set (dict_strategy_merge b n) = fst ` set b \<union> fst ` set n"
  using keys_dict_strategy_merge [of b n] by simp

lemma merge_into_dict:
  "is_dict n \<Longrightarrow> is_dict (always_merger_merge b n) \<and> set (keys_of n) \<subseteq> set (keys_of (always_merger_merge b n))"
  by (cases b; cases n) (force simp: dom_dict_strategy_merge)+

lemma merge_keeps_base_keys:
  "is_dict b \<Longrightarrow> is_dict n \<Longrightarrow> set (keys_of b) \<subseteq> set (keys_of (always_merger_merge b n))"
  by (cases b; cases n) (force simp: dom_dict_strategy_merge)+

lemma ensure_dict_key_is_dict:
  "ensure_dict_key obj k = Inr obj' \<Longrightarrow> is_dict obj' \<Longrightarrow> is_dict obj"
  by (cases obj) (auto simp: ensure_dict_key_def bind_r_eq_Inr split: if_splits)

lemma py_setitem2_is_dict:
  "py_setitem2 obj a b v = Inr obj' \<Longrightarrow> is_dict obj"
  by (auto simp: py_setitem2_Inr)

lemma set_auto_align_is_dict:
  "set_auto_align c aa = Inr c' \<Longrightarrow> is_dict c"
  by (auto simp: set_auto_align_def bind_r_eq_Inr dest: py_setitem2_is_dict ensure_dict_key_is_dict)

lemma request_config_base_is_dict:
  assumes "request_config cd aa dd = Inr cfg"
  shows "is_dict (if truthy cd then always_merger_merge get_default_config cd else get_default_config)"
proof -
  from assms(1) obtain c1 c4 where
    c1: "c1 = (if truthy cd then always_merger_merge get_default_config cd else get_default_config)"
    and c4: "(if dd then suppress_display c1 else Inr c1) = Inr c4"
    and c6: "set_auto_align c4 aa = Inr cfg"
    by (rule request_config_Inr)
  have d4: "is_dict c4" by (rule set_auto_align_is_dict [OF c6])
  have "is_dict c1"
  proof (cases dd)
    case True
    with c4 show ?thesis
      by (auto simp: suppress_display_def bind_r_eq_Inr dest: py_setitem2_is_dict ensure_dict_key_is_dict)
  next
    case False
    with c4 d4 show ?thesis by simp
  qed
  then show ?thesis by (simp add: c1)
qed

lemma merge_default_is_dict:
  "is_dict (always_merger_merge get_default_config cd) \<Longrightarrow> is_dict cd"
  by (cases cd) (auto simp: get_default_config_def)

lemma request_config_all_keys:
  assumes "request_config cd aa dd = Inr cfg"
  shows "set (keys_of get_default_config) \<subseteq> set (keys_of cfg)"
    and "truthy cd \<Longrightarrow> is_dict cd \<and> set (keys_of cd) \<subseteq> set (keys_of cfg)"
proof -
  note base = request_config_base_is_dict [OF assms] and keys = request_config_keys(2) [OF assms]
  have dd: "is_dict get_default_config" by (simp add: get_default_config_def)
  show "set (keys_of get_default_config) \<subseteq> set (keys_of cfg)"
  proof (cases "truthy cd")
    case True
    with base have "is_dict cd" by (simp add: merge_default_is_dict)
    with True keys merge_keeps_base_keys [OF dd, of cd] show ?thesis by auto
  next
    case False
    with keys show ?thesis by simp
  qed
  show "is_dict cd \<and> set (keys_of cd) \<subseteq> set (keys_of cfg)" if "truthy cd"
  proof -
    from that base have d: "is_dict cd" by (simp add: merge_default_is_dict)
    with that keys merge_into_dict [OF d, of get_default_config] show ?thesis by auto
  qed
qed

lemma prepare_config_keys:
  assumes "prepare_config D cd aa dd = Inr (snapshot, cd')"
  shows "is_dict snapshot"
    and "is_dict D \<Longrightarrow> set (keys_of D) \<subseteq> set (keys_of snapshot)"
    and "set (keys_of get_default_config) \<subseteq> set (keys_of snapshot)"
    and "truthy cd \<Longrightarrow> set (keys_of cd) \<subseteq> set (keys_of snapshot)"
proof -
  from assms obtain cfg where r: "request_config cd aa dd = Inr cfg"
    and s: "snapshot = always_merger_merge D cfg"
    by (auto simp: prepare_config_Inr)
  have dc: "is_dict cfg" by (rule request_config_keys(1) [OF r])
  note m = merge_into_dict [OF dc, of D]
  show "is_dict snapshot" using m by (simp add: s)
  show "set (keys_of D) \<subseteq> set (keys_of snapshot)" if "is_dict D"
    using merge_keeps_base_keys [OF that dc] by (simp add: s)
  show "set (keys_of get_default_config) \<subseteq> set (keys_of snapshot)"
    using request_config_all_keys(1) [OF r] m by (auto simp: s)
  show "set (keys_of cd) \<subseteq> set (keys_of snapshot)" if "truthy cd"
    using request_config_all_keys(2) [OF r that] m by (auto simp: s)
qed

lemma serve_requests_keys:
  "is_dict D \<Longrightarrow> is_dict (serve_requests D reqs) \<and> set (keys_of D) \<subseteq> set (keys_of (serve_requests D reqs))"
proof (induction reqs arbitrary: D)
  case Nil
  then show ?case by simp
next
  case (Cons r reqs)
  obtain cd aa where r: "r = (cd, aa)" by (cases r)
  show ?case
  proof (cases "prepare_config D cd aa True")
    case (Inl e)
    with Cons show ?thesis by (simp add: r)
  next
    case (Inr sc)
    obtain s c where sc: "sc = (s, c)" by (cases sc)
    from Inr sc have p: "prepare_config D cd aa True = Inr (s, c)" by simp
    from prepare_config_keys(1,2) [OF p] Cons.prems
    have "is_dict s" "set (keys_of D) \<subseteq> set (keys_of s)" by auto
    with Cons.IH [of s] show ?thesis by (auto simp: r Inr sc)
  qed
qed

lemma keys_truthy: "k \<in> set (keys_of cd) \<Longrightarrow> truthy cd"
  by (cases cd) auto










section \<open>Claims about configuration resolution\<close>

lemmas config_eval =
  prepare_config_def request_config_def suppress_display_def set_auto_align_def
  ensure_dict_key_def py_setitem2_def DotMap_def get_default_config_def CONFIG_DEFAULTS_model_def
  returned_snapshot_def resolved_at_def config_data_after_def bind_r_def








text \<open>
  Claim C9. A call of \<open>_prepare_config\<close> that returns leaves its snapshot as the contents of
  \<open>CONFIG_DEFAULTS\<close>, and every top-level key of its \<open>config_data\<close> is a key of
  \<open>CONFIG_DEFAULTS\<close> after any later requests. Concretely, the call with no \<open>config_data\<close>
  returns one snapshot in the initial state and another after a request with
  \<open>{"extra": 1}\<close> came in between: the later snapshot has the key \<open>extra\<close>.
\<close>

theorem prepare_config_shares_defaults:
  "(prepare_config CONFIG_DEFAULTS config_data auto_align True = Inr (snapshot, config_data') \<longrightarrow>
      serve_requests CONFIG_DEFAULTS [(config_data, auto_align)] = snapshot
      \<and> (\<forall>k later. k \<in> set (keys_of config_data) \<longrightarrow> k \<in> set (keys_of (serve_requests snapshot later))))
   \<and> returned_snapshot (prepare_config CONFIG_DEFAULTS_model JNull False True) \<noteq> None
   \<and> returned_snapshot
        (prepare_config
           (serve_requests CONFIG_DEFAULTS_model [(JNull, False), (JDict [(''extra'', JInt 1)], False)])
           JNull False True)
       \<noteq> returned_snapshot (prepare_config CONFIG_DEFAULTS_model JNull False True)
   \<and> resolved_at
        (prepare_config
           (serve_requests CONFIG_DEFAULTS_model [(JNull, False), (JDict [(''extra'', JInt 1)], False)])
           JNull False True) [''extra'']
       = Some (JInt 1)"
proof -
  have g: "serve_requests CONFIG_DEFAULTS [(config_data, auto_align)] = snapshot
      \<and> (\<forall>k later. k \<in> set (keys_of config_data) \<longrightarrow> k \<in> set (keys_of (serve_requests snapshot later)))"
    if ok: "prepare_config CONFIG_DEFAULTS config_data auto_align True = Inr (snapshot, config_data')"
  proof -
    have ds: "is_dict snapshot" by (rule prepare_config_keys(1) [OF ok])
    have "k \<in> set (keys_of (serve_requests snapshot later))" if "k \<in> set (keys_of config_data)" for k later
    proof -
      from that have "truthy config_data" by (rule keys_truthy)
      with prepare_config_keys(4) [OF ok] that have "k \<in> set (keys_of snapshot)" by auto
      with serve_requests_keys [OF ds, of later] show ?thesis by auto
    qed
    with ok show ?thesis by simp
  qed
  have c: "returned_snapshot (prepare_config CONFIG_DEFAULTS_model JNull False True) \<noteq> None
   \<and> returned_snapshot
        (prepare_config
           (serve_requests CONFIG_DEFAULTS_model [(JNull, False), (JDict [(''extra'', JInt 1)], False)])
           JNull False True)
       \<noteq> returned_snapshot (prepare_config CONFIG_DEFAULTS_model JNull False True)
   \<and> resolved_at
        (prepare_config
           (serve_requests CONFIG_DEFAULTS_model [(JNull, False), (JDict [(''extra'', JInt 1)], False)])
           JNull False True) [''extra'']
       = Some (JInt 1)"
    by (simp add: config_eval)
  from g c show ?thesis by blast
qed

text \<open>The theorem at the request \<open>{"extra": 1}\<close>, followed by two other requests.\<close>

theorem prepare_config_shares_defaults_witness:
  "\<exists>snapshot cd'.
     prepare_config CONFIG_DEFAULTS_model (JDict [(''extra'', JInt 1)]) False True = Inr (snapshot, cd')
     \<and> ''extra'' \<in> set (keys_of (JDict [(''extra'', JInt 1)]))
     \<and> serve_requests CONFIG_DEFAULTS_model [(JDict [(''extra'', JInt 1)], False)] = snapshot
     \<and> ''extra'' \<in> set (keys_of (serve_requests snapshot [(JNull, True), (JDict [(''outputs'', JInt 3)], False)]))"
proof -
  let ?cd = "JDict [(''extra'', JInt 1)]"
  have "\<exists>s c. prepare_config CONFIG_DEFAULTS_model ?cd False True = Inr (s, c)"
    by (simp add: config_eval)
  then obtain s c where ok: "prepare_config CONFIG_DEFAULTS_model ?cd False True = Inr (s, c)" by blast
  have k: "''extra'' \<in> set (keys_of ?cd)" by simp
  from prepare_config_shares_defaults [of CONFIG_DEFAULTS_model ?cd False s c] ok k
  have "serve_requests CONFIG_DEFAULTS_model [(?cd, False)] = s"
    and "''extra'' \<in> set (keys_of (serve_requests s [(JNull, True), (JDict [(''outputs'', JInt 3)], False)]))"
    by blast+
  with ok k show ?thesis by blast
qed

section \<open>Claims about template validation\<close>

lemmas validation_eval =
  validate_template_json_def validation_handler_def top_level_errors_def field_block_checks_def
  check_block_def quoted_def bind_r_def
  template_without_labels_def template_complete_def validate_template_def

lemma check_block_errors:
  "check_block n c (es, ws) = Inr (es', ws') \<Longrightarrow> es \<noteq> [] \<Longrightarrow> es' \<noteq> []"
  by (auto simp: check_block_def bind_r_eq_Inr Let_def split: if_splits)

lemma check_blocks_errors:
  "check_blocks blocks (es, ws) = Inr (es', ws') \<Longrightarrow> es \<noteq> [] \<Longrightarrow> es' \<noteq> []"
proof (induction blocks arbitrary: es ws)
  case Nil
  then show ?case by simp
next
  case (Cons b blocks)
  obtain n c where b: "b = (n, c)" by (cases b)
  from Cons.prems(1) obtain es1 ws1 where 1: "check_block n c (es, ws) = Inr (es1, ws1)"
    and 2: "check_blocks blocks (es1, ws1) = Inr (es', ws')"
    by (auto simp: b bind_r_eq_Inr)
  from check_block_errors [OF 1 Cons.prems(2)] have "es1 \<noteq> []" .
  with Cons.IH [OF 2] show ?case .
qed

lemma top_level_errors_nonempty:
  "top_level_errors e t = Inr es \<Longrightarrow> es \<noteq> []"
  by (auto simp: top_level_errors_def bind_r_eq_Inr Let_def split: if_splits)

lemma field_block_checks_errors:
  "field_block_checks t es = Inr (es', ws') \<Longrightarrow> es \<noteq> [] \<Longrightarrow> es' \<noteq> []"
  by (auto simp: field_block_checks_def bind_r_eq_Inr split: if_splits dest: check_blocks_errors)

lemma validation_handler_details:
  "validation_handler e t rd = Inr (ReturnsDetails valid es ws) \<Longrightarrow> \<not> valid \<and> es \<noteq> []"
  by (auto simp: validation_handler_def bind_r_eq_Inr split: if_splits prod.splits
           dest!: top_level_errors_nonempty field_block_checks_errors)

lemma validation_handler_bool:
  "validation_handler e t rd = Inr (ReturnsBool valid) \<Longrightarrow> \<not> valid"
  by (auto simp: validation_handler_def bind_r_eq_Inr split: if_splits prod.splits
           dest!: top_level_errors_nonempty field_block_checks_errors)

text \<open>
  Claim C7 speaks of the validate-only mode reporting \<open>valid = true\<close> with no errors. In
  the code no template and no core validator lead there: \<open>validate_template_json\<close> with
  \<open>return_details=True\<close> never returns a details dictionary with \<open>valid = true\<close>, and the
  endpoint never answers \<open>valid = true\<close>. (When the core validator accepts the template
  the function returns \<open>None\<close>; when it raises, \<open>errors\<close> starts with its message.)
\<close>

theorem validate_template_json_never_valid:
  "\<not> reports_valid (validate_template_json core_validate template_data True)
   \<and> validate_template_json core_validate template_data True \<noteq> Inr (ReturnsDetails True [] [])
   \<and> (\<forall>errors warnings. validate_template core_validate template_data \<noteq> Validation200 True errors warnings)"
proof -
  have a: "\<not> reports_valid (validate_template_json core_validate template_data True)"
  proof (cases "core_validate template_data")
    case (Inl e)
    show ?thesis
    proof (cases "validation_handler e template_data True")
      case (Inr out)
      then show ?thesis using Inl validation_handler_details [of e template_data True]
        by (cases out) (auto simp: validate_template_json_def)
    qed (simp add: validate_template_json_def Inl)
  qed (simp add: validate_template_json_def)
  then have b: "validate_template_json core_validate template_data True \<noteq> Inr (ReturnsDetails True [] [])"
    by auto
  have c: "validate_template core_validate template_data \<noteq> Validation200 True errors warnings"
    for errors warnings
    using a by (auto simp: validate_template_def split: sum.splits validation_outcome.splits)
  from a b c show ?thesis by blast
qed

text \<open>The theorem at a complete template that the core validator accepts.\<close>

theorem validate_template_json_never_valid_witness:
  "validate_template_json (\<lambda>t. Inr ()) template_complete True = Inr ReturnsNone
   \<and> \<not> reports_valid (validate_template_json (\<lambda>t. Inr ()) template_complete True)
   \<and> validate_template (\<lambda>t. Inr ()) template_complete = Error500 (StrOf TypeError)"
  using validate_template_json_never_valid [of "\<lambda>t. Inr ()" template_complete]
  by (simp add: validation_eval)

text \<open>
  Claim C6 at a template whose only defect is a field block without \<open>fieldLabels\<close>: when
  the core validator accepts it the function returns \<open>None\<close> (and the endpoint answers with
  status 500); when the core validator raises, the details carry the warning naming
  the block, with \<open>valid = false\<close>. In neither case is the result \<open>valid = true\<close> with the
  warning.
\<close>

theorem validate_template_json_missing_labels:
  "validate_template_json core_validate template_without_labels True =
     (case core_validate template_without_labels of
        Inr u \<Rightarrow> Inr ReturnsNone
      | Inl e \<Rightarrow> Inr (ReturnsDetails False [StrOf e]
                        [Text (''Block '' @ quoted ''q1'' @ '' missing '' @ quoted ''fieldLabels'')]))
   \<and> validate_template_json core_validate template_without_labels True
       \<noteq> Inr (ReturnsDetails True []
                [Text (''Block '' @ quoted ''q1'' @ '' missing '' @ quoted ''fieldLabels'')])
   \<and> validate_template core_validate template_without_labels =
     (case core_validate template_without_labels of
        Inr u \<Rightarrow> Error500 (StrOf TypeError)
      | Inl e \<Rightarrow> Validation200 False [StrOf e]
                   [Text (''Block '' @ quoted ''q1'' @ '' missing '' @ quoted ''fieldLabels'')])"
  by (cases "core_validate template_without_labels") (simp_all add: validation_eval)

text \<open>The theorem at a core validator that accepts and at one that raises.\<close>

theorem validate_template_json_missing_labels_witness:
  "validate_template_json (\<lambda>t. Inr ()) template_without_labels True = Inr ReturnsNone
   \<and> validate_template_json (\<lambda>t. Inl (Raised ''Provided Template JSON is Invalid'')) template_without_labels True
       = Inr (ReturnsDetails False [StrOf (Raised ''Provided Template JSON is Invalid'')]
                [Text (''Block '' @ quoted ''q1'' @ '' missing '' @ quoted ''fieldLabels'')])
   \<and> validate_template (\<lambda>t. Inr ()) template_without_labels = Error500 (StrOf TypeError)"
  using validate_template_json_missing_labels [of "\<lambda>t. Inr ()"]
        validate_template_json_missing_labels [of "\<lambda>t. Inl (Raised ''Provided Template JSON is Invalid'')"]
  by simp

section \<open>Facts about processing\<close>

lemma error_result_simps [simp]:
  "status (error_result name msg) = ''error''"
  "file_name (error_result name msg) = name"
  "message (error_result name msg) = Some msg"
  by (simp_all add: error_result_def)

lemma read_item_Inr:
  "read_item env config template decoded name inc ev = Inr r \<Longrightarrow>
   status r = ''success'' \<and> file_name r = name \<and> message r = None"
  by (auto simp: read_item_def bind_r_eq_Inr Let_def split: if_splits option.splits prod.splits)

lemma process_omr_image_body_Inr:
  "process_omr_image_body env st d md name inc aa ev = (Inr r, st') \<Longrightarrow>
   file_name r = name \<and> (status r = ''success'' \<and> message r = None \<or>
     status r = ''error'' \<and> message r = Some (Text ''Failed to decode image''))"
  by (auto simp: process_omr_image_body_def split: sum.splits option.splits prod.splits
           dest: read_item_Inr)

lemma process_omr_image_result:
  "process_omr_image env st d md name inc aa ev = (r, st') \<Longrightarrow>
   file_name r = name \<and> (status r = ''success'' \<or> status r = ''error'') \<and>
   (status r = ''success'' \<longrightarrow> message r = None) \<and>
   (status r \<noteq> ''success'' \<longrightarrow> message r \<noteq> None)"
  by (auto simp: process_omr_image_def split: sum.splits prod.splits
           dest!: process_omr_image_body_Inr)

lemma run_items_length:
  "run_items env md inc aa ev items st = (rs, st') \<Longrightarrow>
   length rs = length items \<and> map file_name rs = map snd items"
proof (induction items arbitrary: st rs st')
  case Nil
  then show ?case by simp
next
  case (Cons it items)
  obtain d name where it: "it = (d, name)" by (cases it)
  obtain r st1 where p: "process_omr_image env st d md name inc aa ev = (r, st1)" by fastforce
  obtain rs2 st2 where q: "run_items env md inc aa ev items st1 = (rs2, st2)" by fastforce
  from Cons.prems have "rs = r # rs2" by (simp add: it p q)
  with Cons.IH [OF q] process_omr_image_result [OF p] show ?case by (simp add: it)
qed

lemma count_failures_simps [simp]:
  "count_failures [] = 0"
  "count_failures (rs @ [r]) = count_failures rs + (if status r = ''success'' then 0 else 1)"
  "count_failures (r # rs) = (if status r = ''success'' then 0 else 1) + count_failures rs"
  by (simp_all add: count_failures_def)

lemma batch_loop_run_items:
  "batch_loop env md inc aa ev items (rs, a, b) st =
     (case run_items env md inc aa ev items st of
        (new, st') \<Rightarrow>
          ((rs @ new, a + (length new - count_failures new), b + count_failures new), st'))"
proof (induction items arbitrary: rs a b st)
  case Nil
  then show ?case by simp
next
  case (Cons it items)
  obtain d name where it: "it = (d, name)" by (cases it)
  obtain r st1 where p: "process_omr_image env st d md name inc aa ev = (r, st1)" by fastforce
  obtain rs2 st2 where q: "run_items env md inc aa ev items st1 = (rs2, st2)" by fastforce
  have le: "count_failures rs2 \<le> length rs2" by (simp add: count_failures_def)
  show ?case
    using le by (simp add: it p q Cons.IH)
qed

lemma process_omr_batch_run_items:
  "process_omr_batch env st images_data file_names md inc aa ev =
     (case run_items env md inc aa ev (zip images_data file_names) st of
        (rs, st') \<Rightarrow>
          (\<lparr>batch_status = ''success'', total = length images_data,
            successful = length rs - count_failures rs, failed = count_failures rs, results = rs\<rparr>, st'))"
  by (simp add: process_omr_batch_def batch_loop_run_items split: prod.splits)

lemma dir_item_result:
  "dir_item env template ops inc d name = (r, ok) \<Longrightarrow>
   file_name r = name \<and> (ok \<longleftrightarrow> status r = ''success'') \<and> (status r = ''success'' \<or> status r = ''error'')"
  by (auto simp: dir_item_def bind_r_eq_Inr Let_def split: sum.splits option.splits prod.splits if_splits)

lemma dir_loop_counts:
  "dir_loop env template ops inc items (rs, a, b) = (rs', a', b') \<Longrightarrow>
   (\<exists>new. rs' = rs @ new \<and> length new = length items \<and> map file_name new = map snd items \<and>
      a' = a + (length new - count_failures new) \<and> b' = b + count_failures new)"
proof (induction items arbitrary: rs a b)
  case Nil
  then show ?case by simp
next
  case (Cons it items)
  obtain d name where it: "it = (d, name)" by (cases it)
  obtain r ok where p: "dir_item env template ops inc d name = (r, ok)" by fastforce
  note pr = dir_item_result [OF p]
  from Cons.prems have
    "dir_loop env template ops inc items
       (rs @ [r], (if ok then a + 1 else a), (if ok then b else b + 1)) = (rs', a', b')"
    by (simp add: it p)
  from Cons.IH [OF this] obtain new where new: "rs' = (rs @ [r]) @ new" "length new = length items"
    "map file_name new = map snd items"
    "a' = (if ok then a + 1 else a) + (length new - count_failures new)"
    "b' = (if ok then b else b + 1) + count_failures new" by blast
  have le: "count_failures new \<le> length new" by (simp add: count_failures_def)
  show ?case
    by (rule exI [of _ "r # new"]) (use new pr le in \<open>auto simp: it\<close>)
qed

lemma process_dir_for_api_batch:
  assumes "process_dir_for_api env st dir inc aa = (Inr (BatchPayload b), st')"
  shows "batch_status b = ''success'' \<and> total b = length (image_files_of (dir_entries dir))
       \<and> length (results b) = total b
       \<and> map file_name (results b) = map fst (image_files_of (dir_entries dir))
       \<and> failed b = count_failures (results b)
       \<and> successful b = total b - failed b"
proof -
  let ?imgs = "image_files_of (dir_entries dir)"
  let ?datas = "map (\<lambda>(name, is_file, content). content) ?imgs"
  let ?names = "map (\<lambda>(name, is_file, content). name) ?imgs"
  from assms obtain template ops rs a c where
    loop: "dir_loop env template ops inc (zip ?datas ?names) ([], 0, 0) = (rs, a, c)"
    and b: "b = \<lparr>batch_status = ''success'', total = length ?datas,
                 successful = a, failed = c, results = rs\<rparr>"
    by (auto simp: process_dir_for_api_def Let_def
             split: if_splits option.splits sum.splits prod.splits)
  from dir_loop_counts [OF loop] have
    len: "length rs = length (zip ?datas ?names)" and
    names: "map file_name rs = map snd (zip ?datas ?names)" and
    a: "a = length rs - count_failures rs" and c: "c = count_failures rs"
    by auto
  have z: "map snd (zip ?datas ?names) = ?names" by (simp add: map_snd_zip)
  have n: "?names = map fst ?imgs" by (auto simp: case_prod_beta)
  show ?thesis using len names a c z n by (simp add: b)
qed

section \<open>Claims about batches\<close>


text \<open>
  Claim C10. The key \<open>status\<close> of the batch dictionary is \<open>'success'\<close> for every input of
  \<open>process_omr_batch\<close> and for every batch that \<open>process_dir_for_api\<close> returns, whatever the
  items did.
\<close>

theorem batch_status_constant:
  "batch_status (fst (process_omr_batch env st images_data file_names marker_data include_images
                        auto_align evaluation_data)) = ''success''
   \<and> (\<forall>b st'. process_dir_for_api env st dir include_images auto_align = (Inr (BatchPayload b), st') \<longrightarrow>
         batch_status b = ''success'')"
  by (auto simp: process_omr_batch_run_items split: prod.splits dest: process_dir_for_api_batch)

lemmas pipeline_eval =
  process_omr_batch_def process_omr_image_def process_omr_image_body_def bytes_to_numpy_def
  numpy_to_base64_def create_template_from_dict_def rewrite_marker_paths_def truthy_opt_def
  for_preProcessors_def persist_marker_step_def resolve_relative_step_def cv2_imwrite_def
  read_item_def error_result_def stub_env_def stub_state_def temp_marker_path_def count_failures_def
  template_complete_def template_with_marker_def template_without_blocks_def


text \<open>The theorem at a batch in which every item fails.\<close>

theorem batch_status_constant_witness:
  "batch_status (fst (process_omr_batch stub_env (stub_state template_complete JNull)
        [[0x00], [0x01]] [''a.jpg'', ''b.jpg''] None False False JNull)) = ''success''
   \<and> failed (fst (process_omr_batch stub_env (stub_state template_complete JNull)
        [[0x00], [0x01]] [''a.jpg'', ''b.jpg''] None False False JNull)) = 2
   \<and> total (fst (process_omr_batch stub_env (stub_state template_complete JNull)
        [[0x00], [0x01]] [''a.jpg'', ''b.jpg''] None False False JNull)) = 2"
proof -
  let ?b = "process_omr_batch stub_env (stub_state template_complete JNull)
        [[0x00], [0x01]] [''a.jpg'', ''b.jpg''] None False False JNull"
  from batch_status_constant [of stub_env "stub_state template_complete JNull"
      "[[0x00], [0x01]]" "[''a.jpg'', ''b.jpg'']" None False False JNull]
  have s: "batch_status (fst ?b) = ''success''" by blast
  have f: "failed (fst ?b) = 2 \<and> total (fst ?b) = 2"
    by (simp add: pipeline_eval config_eval)
  from s f show ?thesis by simp
qed


lemma process_omr_image_undecodable:
  "\<not> decodes env d \<Longrightarrow>
   \<exists>m. process_omr_image env st d md name inc aa ev = (error_result name m, st)"
  by (auto simp: process_omr_image_def process_omr_image_body_def decodes_def
           split: sum.splits option.splits prod.splits)

lemma run_items_append:
  "run_items env md inc aa ev (xs @ ys) st =
     (case run_items env md inc aa ev xs st of
        (r1, s1) \<Rightarrow> (case run_items env md inc aa ev ys s1 of (r2, s2) \<Rightarrow> (r1 @ r2, s2)))"
  by (induction xs arbitrary: st) (auto split: prod.splits)

lemma batch_results_run_items:
  "batch_results env st md inc aa ev items = fst (run_items env md inc aa ev items st)"
  by (simp add: batch_results_def process_omr_batch_run_items zip_map_fst_snd split: prod.splits)

lemma batch_results_remove:
  assumes "\<not> decodes env d"
  shows "\<exists>m. batch_results env st md inc aa ev (xs @ (d, name) # ys) =
           take (length xs) (batch_results env st md inc aa ev (xs @ ys))
           @ [error_result name m]
           @ drop (length xs) (batch_results env st md inc aa ev (xs @ ys))"
proof -
  obtain r1 s1 where 1: "run_items env md inc aa ev xs st = (r1, s1)" by fastforce
  obtain r2 s2 where 2: "run_items env md inc aa ev ys s1 = (r2, s2)" by fastforce
  from process_omr_image_undecodable [OF assms, of s1 md name inc aa ev]
  obtain m where p: "process_omr_image env s1 d md name inc aa ev = (error_result name m, s1)" by blast
  have l: "length r1 = length xs" using run_items_length [OF 1] by simp
  have "batch_results env st md inc aa ev (xs @ (d, name) # ys) = r1 @ [error_result name m] @ r2"
    by (simp add: batch_results_run_items run_items_append 1 2 p)
  moreover have "batch_results env st md inc aa ev (xs @ ys) = r1 @ r2"
    by (simp add: batch_results_run_items run_items_append 1 2)
  ultimately show ?thesis using l by auto
qed




lemma cleanup_only_bytes:
  "only_bytes temp_files \<Longrightarrow> cleanup_temp_files temp_files fs = fs"
  by (induction temp_files fs rule: cleanup_temp_files.induct) (auto simp: only_bytes_def)

lemma only_bytes_append [simp]:
  "only_bytes (xs @ ys) = (only_bytes xs \<and> only_bytes ys)"
  "only_bytes []"
  "only_bytes (TempBytes b # xs) = only_bytes xs"
  "only_bytes (map (\<lambda>(filename, b). TempBytes b) several)"
  by (auto simp: only_bytes_def list_all_iff)

lemma process_file_upload_only_bytes:
  assumes "process_file_upload env st req temp_files = (r, temp_files', st')" "only_bytes temp_files"
  shows "only_bytes temp_files'"
proof -
  let ?t1 = "(case marker_upload req of Some m \<Rightarrow> temp_files @ [TempBytes m] | None \<Rightarrow> temp_files)"
  have t1: "only_bytes ?t1" using assms(2) by (simp split: option.splits)
  have "temp_files' = temp_files \<or> temp_files' = ?t1
      \<or> (\<exists>image_data. temp_files' = ?t1 @ [TempBytes image_data])
      \<or> temp_files' = ?t1 @ map (\<lambda>(filename, b). TempBytes b) (image_files req)"
    using assms(1)
    by (auto simp: process_file_upload_def Let_def
             split: if_splits option.splits sum.splits prod.splits list.splits)
  with t1 assms(2) show ?thesis by auto
qed

section \<open>Claims about the upload route\<close>

text \<open>
  Claim C8 speaks of the persisted marker file being deleted when the request is over.
  In the code \<open>temp_files\<close> only ever holds bytes, so the \<open>finally\<close> clause of
  \<open>process_omr\<close> deletes nothing: the files after the request are the files
  \<open>_process_file_upload\<close> left, and a marker file persisted at
  \<open>/tmp/omr_marker_temp.jpg\<close> is still there.
\<close>

theorem marker_file_survives_cleanup:
  "files (snd (process_omr env st req)) = files (snd (snd (process_file_upload env st req [])))
   \<and> only_bytes (fst (snd (process_file_upload env st req [])))
   \<and> (\<forall>m. files (snd (snd (process_file_upload env st req []))) temp_marker_path = Some m \<longrightarrow>
          files (snd (process_omr env st req)) temp_marker_path = Some m)"
proof -
  obtain r tf st' where u: "process_file_upload env st req [] = (r, tf, st')"
    by (cases "process_file_upload env st req []") auto
  have ob: "only_bytes tf" by (rule process_file_upload_only_bytes [OF u]) simp
  then have "cleanup_temp_files tf (files st') = files st'" by (rule cleanup_only_bytes)
  with ob show ?thesis by (simp add: process_omr_def u)
qed

lemmas upload_eval =
  process_omr_def process_file_upload_def allowed_file_def lower_def ascii_lower_def
  after_last_dot_def default_marker_for_def validate_config_json_def upload_of_def
  template_with_marker_only_def

text \<open>
  The theorem at a request with explicit marker bytes and a \<open>CropOnMarkers\<close> step, once
  with a template that materializes (success path) and once with one that does not
  (failure path): the marker file exists after both.
\<close>

theorem marker_file_survives_cleanup_witness:
  "files (stub_state JNull JNull) temp_marker_path = None
   \<and> fst (fst (process_omr stub_env (stub_state JNull JNull)
              (upload_of [(''a.jpg'', [0xFF, 0xD8])] template_with_marker (Some [0xFF, 0x4D])))) = 200
   \<and> files (snd (process_omr stub_env (stub_state JNull JNull)
              (upload_of [(''a.jpg'', [0xFF, 0xD8])] template_with_marker (Some [0xFF, 0x4D]))))
        temp_marker_path = Some [0xFF, 0x4D]
   \<and> files (snd (process_omr stub_env (stub_state JNull JNull)
              (upload_of [(''a.jpg'', [0xFF, 0xD8])] template_with_marker_only (Some [0xFF, 0x4D]))))
        temp_marker_path = Some [0xFF, 0x4D]"
proof -
  let ?ok = "upload_of [(''a.jpg'', [0xFF, 0xD8])] template_with_marker (Some [0xFF, 0x4D])"
  let ?bad = "upload_of [(''a.jpg'', [0xFF, 0xD8])] template_with_marker_only (Some [0xFF, 0x4D])"
  have 0: "files (stub_state JNull JNull) temp_marker_path = None" by (simp add: stub_state_def)
  have 1: "fst (fst (process_omr stub_env (stub_state JNull JNull) ?ok)) = 200"
    by (simp add: upload_eval pipeline_eval config_eval validation_eval)
  have 2: "files (snd (snd (process_file_upload stub_env (stub_state JNull JNull) ?ok []))) temp_marker_path
      = Some [0xFF, 0x4D]"
    by (simp add: upload_eval pipeline_eval config_eval validation_eval)
  have 3: "files (snd (snd (process_file_upload stub_env (stub_state JNull JNull) ?bad []))) temp_marker_path
      = Some [0xFF, 0x4D]"
    by (simp add: upload_eval pipeline_eval config_eval validation_eval)
  from marker_file_survives_cleanup [of stub_env "stub_state JNull JNull" ?ok] 2
  have 4: "files (snd (process_omr stub_env (stub_state JNull JNull) ?ok)) temp_marker_path = Some [0xFF, 0x4D]"
    by blast
  from marker_file_survives_cleanup [of stub_env "stub_state JNull JNull" ?bad] 3
  have 5: "files (snd (process_omr stub_env (stub_state JNull JNull) ?bad)) temp_marker_path = Some [0xFF, 0x4D]"
    by blast
  from 0 1 4 5 show ?thesis by blast
qed

lemma prepare_config_no_config:
  "\<exists>c. prepare_config D JNull aa True = Inr (c, JNull)"
  by (simp add: config_eval)

lemma process_omr_image_template_raises:
  assumes tf: "\<And>c fs. Template_from_dict env t c None fs = Inl e"
    and dec: "decodes env d"
    and inv: "caller_template st = t" "caller_config st = JNull"
  shows "\<exists>st'. process_omr_image env st d None n inc aa JNull = (error_result n (StrOf e), st')
           \<and> caller_template st' = t \<and> caller_config st' = JNull"
proof -
  from dec obtain img where d: "bytes_to_numpy env d = Inr (Some img)"
    by (auto simp: decodes_def split: sum.splits option.splits)
  from prepare_config_no_config obtain c where
    c: "prepare_config (config_defaults st) JNull aa True = Inr (c, JNull)" by blast
  show ?thesis
    using tf by (simp add: process_omr_image_def process_omr_image_body_def d c inv
        create_template_from_dict_def rewrite_marker_paths_def truthy_opt_def)
qed

lemma run_items_all_fail:
  assumes tf: "\<And>c fs. Template_from_dict env t c None fs = Inl e"
    and dec: "\<forall>(d, n) \<in> set items. decodes env d"
    and inv: "caller_template st = t" "caller_config st = JNull"
  shows "fst (run_items env None inc aa JNull items st) = map (\<lambda>(d, n). error_result n (StrOf e)) items"
  using dec inv
proof (induction items arbitrary: st)
  case Nil
  then show ?case by simp
next
  case (Cons it items)
  obtain d n where it: "it = (d, n)" by (cases it)
  from Cons.prems(1) it have dd: "decodes env d" by simp
  from process_omr_image_template_raises [OF tf dd Cons.prems(2,3), of n inc aa]
  obtain st' where p: "process_omr_image env st d None n inc aa JNull = (error_result n (StrOf e), st')"
    and i: "caller_template st' = t" "caller_config st' = JNull" by blast
  from Cons.prems(1) have "\<forall>(d, n) \<in> set items. decodes env d" by simp
  from Cons.IH [OF this i] show ?case
    by (cases "run_items env None inc aa JNull items st'") (simp add: it p)
qed

lemma count_failures_all_errors:
  "count_failures (map (\<lambda>(d, n). error_result n m) items) = length items"
  by (induction items) (auto simp: count_failures_def)

lemma zip_swap_items:
  "zip (map snd xs) (map fst xs) = map (\<lambda>(n, d). (d, n)) xs"
  by (induction xs) auto

lemma map_error_swap:
  "map (\<lambda>(d, n). error_result n m) (map (\<lambda>(n, d). (d, n)) xs)
   = map (\<lambda>(filename, d). error_result filename m) xs"
  by (induction xs) auto

lemma count_failures_names:
  "count_failures (map (\<lambda>(filename, d). error_result filename m) xs) = length xs"
  by (induction xs) (auto simp: count_failures_def)

text \<open>
  Claim C3 speaks of an invalid shared context aborting the request with one top-level
  error. In the upload route, for a request with several acceptable images that
  decode, a template on which \<open>validate_template_json\<close> answers \<open>False\<close> and whose
  materialization raises \<open>e\<close>, no configuration and no marker, the answer has status
  code 200 and is a batch dictionary with \<open>status = 'success'\<close> and one error result
  per image, each with the message \<open>str(e)\<close>.
\<close>

theorem invalid_template_yields_item_errors:
  assumes "2 \<le> length (image_files req)"
    and "\<forall>(filename, d) \<in> set (image_files req). allowed_file filename [''png'', ''jpg'', ''jpeg''] \<and> decodes env d"
    and "template_upload req = Some (Inr t)"
    and "validate_template_json (core_validator env) t False = Inr (ReturnsBool False)"
    and "config_upload req = None" and "default_config req = None"
    and "marker_upload req = None" and "default_marker_for req t = Inr None"
    and "\<forall>c fs. Template_from_dict env t c None fs = Inl e"
  shows "fst (process_omr env st req) =
           (200, BatchPayload
                   \<lparr>batch_status = ''success'', total = length (image_files req), successful = 0,
                    failed = length (image_files req),
                    results = map (\<lambda>(filename, d). error_result filename (StrOf e)) (image_files req)\<rparr>)"
proof -
  let ?imgs = "image_files req"
  let ?st = "st\<lparr>caller_template := t, caller_config := JNull\<rparr>"
  from assms(1) obtain x y zs where imgs: "?imgs = x # y # zs"
    by (cases ?imgs; cases "tl ?imgs") auto
  have f: "find (\<lambda>(filename, content). \<not> allowed_file filename [''png'', ''jpg'', ''jpeg'']) ?imgs = None"
    using assms(2) by (auto simp: find_None_iff)
  have z: "zip (map snd ?imgs) (map fst ?imgs) = map (\<lambda>(n, d). (d, n)) ?imgs"
    by (rule zip_swap_items)
  have dec: "\<forall>(d, n) \<in> set (map (\<lambda>(n, d). (d, n)) ?imgs). decodes env d"
    using assms(2) by auto
  have tf: "\<And>c fs. Template_from_dict env t c None fs = Inl e" using assms(9) by simp
  have rs: "fst (run_items env None (want_image req) (want_auto_align req) JNull
                   (map (\<lambda>(n, d). (d, n)) ?imgs) ?st)
            = map (\<lambda>(d, n). error_result n (StrOf e)) (map (\<lambda>(n, d). (d, n)) ?imgs)"
    by (rule run_items_all_fail [OF tf dec]) simp_all
  have m: "map (\<lambda>(d, n). error_result n (StrOf e)) (map (\<lambda>(n, d). (d, n)) ?imgs)
           = map (\<lambda>(filename, d). error_result filename (StrOf e)) ?imgs"
    by (rule map_error_swap)
  have cf: "count_failures (map (\<lambda>(filename, d). error_result filename (StrOf e)) ?imgs) = length ?imgs"
    by (rule count_failures_names)
  have b: "fst (process_omr_batch env ?st (map snd ?imgs) (map fst ?imgs) None (want_image req)
                  (want_auto_align req) JNull)
           = \<lparr>batch_status = ''success'', total = length ?imgs, successful = 0,
              failed = length ?imgs,
              results = map (\<lambda>(filename, d). error_result filename (StrOf e)) ?imgs\<rparr>"
  proof -
    obtain out s2 where r: "run_items env None (want_image req) (want_auto_align req) JNull
                   (map (\<lambda>(n, d). (d, n)) ?imgs) ?st = (out, s2)" by fastforce
    from rs r have "out = map (\<lambda>(d, n). error_result n (StrOf e)) (map (\<lambda>(n, d). (d, n)) ?imgs)"
      by simp
    with m have out: "out = map (\<lambda>(filename, d). error_result filename (StrOf e)) ?imgs" by simp
    show ?thesis
      unfolding process_omr_batch_run_items z r
      by (simp only: prod.case fst_conv out cf length_map) simp
  qed
  have u: "fst (process_file_upload env st req []) =
             Inr (BatchPayload (fst (process_omr_batch env ?st (map snd ?imgs) (map fst ?imgs) None
                 (want_image req) (want_auto_align req) JNull)))"
    using f assms(3-8) imgs
    by (simp add: process_file_upload_def Let_def split: prod.splits)
  obtain r tf st' where p: "process_file_upload env st req [] = (r, tf, st')"
    by (cases "process_file_upload env st req []") auto
  from u b p show ?thesis
    by (simp add: process_omr_def)
qed

text \<open>The theorem at a template without field blocks and two images.\<close>

theorem invalid_template_yields_item_errors_witness:
  "2 \<le> length (image_files (upload_of [(''a.jpg'', [0xFF, 0xD8]), (''b.png'', [0xFF, 0x01])]
                    template_without_blocks None))
   \<and> validate_template_json (core_validator stub_env) template_without_blocks False = Inr (ReturnsBool False)
   \<and> Template_from_dict stub_env template_without_blocks JNull None (\<lambda>p. None) = Inl (KeyError ''fieldBlocks'')
   \<and> fst (process_omr stub_env (stub_state JNull JNull)
            (upload_of [(''a.jpg'', [0xFF, 0xD8]), (''b.png'', [0xFF, 0x01])] template_without_blocks None)) =
       (200, BatchPayload
               \<lparr>batch_status = ''success'', total = 2, successful = 0, failed = 2,
                results = [error_result ''a.jpg'' (StrOf (KeyError ''fieldBlocks'')),
                           error_result ''b.png'' (StrOf (KeyError ''fieldBlocks''))]\<rparr>)"
proof -
  let ?req = "upload_of [(''a.jpg'', [0xFF, 0xD8]), (''b.png'', [0xFF, 0x01])] template_without_blocks None"
  have 1: "2 \<le> length (image_files ?req)" by (simp add: upload_of_def)
  have 2: "\<forall>(filename, d) \<in> set (image_files ?req).
             allowed_file filename [''png'', ''jpg'', ''jpeg''] \<and> decodes stub_env d"
    by (simp add: upload_eval decodes_def bytes_to_numpy_def stub_env_def)
  have 3: "template_upload ?req = Some (Inr template_without_blocks)" by (simp add: upload_of_def)
  have 4: "validate_template_json (core_validator stub_env) template_without_blocks False
             = Inr (ReturnsBool False)"
    by (simp add: validation_eval stub_env_def template_without_blocks_def)
  have 5: "config_upload ?req = None" "default_config ?req = None" "marker_upload ?req = None"
    by (simp_all add: upload_of_def)
  have 6: "default_marker_for ?req template_without_blocks = Inr None"
    by (simp add: default_marker_for_def template_without_blocks_def)
  have 7: "\<forall>c fs. Template_from_dict stub_env template_without_blocks c None fs = Inl (KeyError ''fieldBlocks'')"
    by (simp add: stub_env_def template_without_blocks_def)
  from invalid_template_yields_item_errors [OF 1 2 3 4 5 6 7, of "stub_state JNull JNull"]
  have 8: "fst (process_omr stub_env (stub_state JNull JNull) ?req) =
       (200, BatchPayload
               \<lparr>batch_status = ''success'', total = 2, successful = 0, failed = 2,
                results = [error_result ''a.jpg'' (StrOf (KeyError ''fieldBlocks'')),
                           error_result ''b.png'' (StrOf (KeyError ''fieldBlocks''))]\<rparr>)"
    by (simp add: upload_of_def)
  from 1 4 7 8 show ?thesis by blast
qed

section \<open>Further facts about validation, the directory path and isolation\<close>

lemma missing_field_blocks_reported:
  assumes "core (JDict d) = Inl e"
    and "''fieldBlocks'' \<notin> set (map fst d) \<or> map_of d ''fieldBlocks'' = Some (JDict [])"
  shows "\<exists>errors. validate_template_json core (JDict d) True = Inr (ReturnsDetails False errors [])
           \<and> Text (''Missing or empty '' @ quoted ''fieldBlocks'') \<in> set errors"
  using assms(2)
proof
  assume "''fieldBlocks'' \<notin> set (map fst d)"
  then show ?thesis
    by (simp add: validate_template_json_def assms(1) validation_handler_def top_level_errors_def
          field_block_checks_def Let_def)
next
  assume a: "map_of d ''fieldBlocks'' = Some (JDict [])"
  then have "''fieldBlocks'' \<in> fst ` set d" by (force dest: map_of_SomeD)
  with a show ?thesis
    by (simp add: validate_template_json_def assms(1) validation_handler_def top_level_errors_def
          field_block_checks_def Let_def)
qed

lemma accepted_template_returns_none:
  "core t = Inr () \<Longrightarrow> validate_template_json core t rd = Inr ReturnsNone"
  by (simp add: validate_template_json_def)

lemma process_dir_for_api_aborts:
  assumes "dir_exists dir" "template_file dir = Some (Inr t)" "config_file dir = None"
    and "image_files_of (dir_entries dir) \<noteq> []"
    and "prepare_config (config_defaults st) JNull aa True = Inr (config, cd')"
    and "fst (create_template_from_dict env
           (st\<lparr>caller_template := t, caller_config := JNull, config_defaults := config, caller_config := cd'\<rparr>)
           config (marker_file dir) (Some (input_path dir))) = Inl e"
  shows "fst (process_dir_for_api env st dir inc aa) = Inl e"
  using assms
  by (auto simp: process_dir_for_api_def Let_def split: prod.splits sum.splits)

























section \<open>Claims about failures\<close>



end
